theory Spec2Isabelle
  imports Complex_Main "HOL-Library.Multiset"
begin

section \<open>Cells of a numeric column\<close>

text \<open>
  A cell of a float64 column is a finite number, one of the two infinities (the bucket
  edges of the program contain \<^verbatim>\<open>-np.inf\<close> and \<^verbatim>\<open>np.inf\<close>) or NaN, which pandas uses
  for a missing value. Finite values are idealised as reals. Comparisons follow IEEE 754:
  every comparison with NaN is false.
\<close>

datatype fl = NInf | Fin real | PInf | NaN

fun isna :: "fl \<Rightarrow> bool" where
  "isna NaN = True"
| "isna _ = False"

fun fle :: "fl \<Rightarrow> fl \<Rightarrow> bool" where
  "fle NaN _ = False"
| "fle _ NaN = False"
| "fle NInf _ = True"
| "fle _ PInf = True"
| "fle (Fin a) (Fin b) = (a \<le> b)"
| "fle PInf _ = False"
| "fle (Fin a) NInf = False"

fun flt :: "fl \<Rightarrow> fl \<Rightarrow> bool" where
  "flt NaN _ = False"
| "flt _ NaN = False"
| "flt PInf _ = False"
| "flt _ NInf = False"
| "flt (Fin a) (Fin b) = (a < b)"
| "flt NInf _ = True"
| "flt (Fin a) PInf = True"

text \<open>\<^verbatim>\<open>series > 0\<close>, the mask of the qualifying rows.\<close>

definition gt0 :: "fl \<Rightarrow> bool" where
  "gt0 x = flt (Fin 0) x"

section \<open>Bucketizing: \<^verbatim>\<open>pd.cut(x, bins=edges, labels=labels, right=False)\<close>\<close>

text \<open>
  pandas computes the bucket of a value with \<^verbatim>\<open>bins.searchsorted(x, side="right")\<close>, the
  number of leading edges that are at most \<open>x\<close> in the increasing list of edges. The value
  is missing in the result when it is NaN, when no edge is at most \<open>x\<close>, or when every edge
  is; otherwise its label is \<^verbatim>\<open>labels[ids - 1]\<close>.
\<close>

definition searchsorted_right :: "fl list \<Rightarrow> fl \<Rightarrow> nat" where
  "searchsorted_right bins x = length (takeWhile (\<lambda>b. fle b x) bins)"

definition pd_cut :: "fl list \<Rightarrow> string list \<Rightarrow> fl \<Rightarrow> string option" where
  "pd_cut bins labels x =
     (let ids = searchsorted_right bins x
      in if isna x \<or> ids = length bins \<or> ids = 0 then None
         else Some (labels ! (ids - 1)))"

definition age_bins_labels :: "string list" where
  "age_bins_labels = [''<1 an'', ''1-2 ans'', ''2-3 ans'', ''>3 ans'']"

definition age_bins_edges :: "fl list" where
  "age_bins_edges = [NInf, Fin 1, Fin 2, Fin 3, PInf]"

definition bins_labels :: "string list" where
  "bins_labels = [''<500k'', ''500k-1M'', ''1M-2M'', ''2M-5M'', ''>5M'']"

definition bins_edges :: "fl list" where
  "bins_edges = [NInf, Fin 500000, Fin 1000000, Fin 2000000, Fin 5000000, PInf]"

text \<open>Interval membership as the specification words it: \<open>edges[i] \<le> v < edges[i+1]\<close>.\<close>

definition in_bucket :: "fl list \<Rightarrow> nat \<Rightarrow> fl \<Rightarrow> bool" where
  "in_bucket edges i v = (fle (edges ! i) v \<and> flt v (edges ! Suc i))"

section \<open>Arithmetic on cells\<close>

text \<open>
  Sums and differences with the IEEE rules for the infinities and NaN, the finite part
  computed over the reals, without rounding. The difference of two years of a table is
  such a difference. \<open>series_sum\<close> and \<open>series_mean\<close> are the exact sum and mean of the non-null
  values of a column: they state properties and they are the arithmetic of the example
  table. What pandas computes for a sum or a mean in float64 or int64 is a parameter of the
  model, introduced below.
\<close>

fun fl_add :: "fl \<Rightarrow> fl \<Rightarrow> fl" where
  "fl_add NaN _ = NaN"
| "fl_add _ NaN = NaN"
| "fl_add (Fin a) (Fin b) = Fin (a + b)"
| "fl_add PInf NInf = NaN"
| "fl_add NInf PInf = NaN"
| "fl_add PInf _ = PInf"
| "fl_add _ PInf = PInf"
| "fl_add NInf _ = NInf"
| "fl_add _ NInf = NInf"

fun fl_neg :: "fl \<Rightarrow> fl" where
  "fl_neg NaN = NaN"
| "fl_neg (Fin a) = Fin (- a)"
| "fl_neg PInf = NInf"
| "fl_neg NInf = PInf"

definition fl_sub :: "fl \<Rightarrow> fl \<Rightarrow> fl" where
  "fl_sub a b = fl_add a (fl_neg b)"

definition notnull :: "fl \<Rightarrow> bool" where
  "notnull x = (\<not> isna x)"

definition series_sum :: "fl list \<Rightarrow> fl" where
  "series_sum xs = foldr fl_add (filter notnull xs) (Fin 0)"

fun div_len :: "fl \<Rightarrow> nat \<Rightarrow> fl" where
  "div_len (Fin s) n = Fin (s / real n)"
| "div_len x n = x"

definition series_mean :: "fl list \<Rightarrow> fl" where
  "series_mean xs =
     (let ys = filter notnull xs
      in if ys = [] then NaN else div_len (series_sum ys) (length ys))"

text \<open>\<^verbatim>\<open>int(x)\<close> and \<^verbatim>\<open>astype(int)\<close> truncate a finite value towards zero.\<close>

definition trunc :: "real \<Rightarrow> int" where
  "trunc x = (if 0 \<le> x then \<lfloor>x\<rfloor> else \<lceil>x\<rceil>)"

text \<open>
  Rounding to the nearest hundredth over the reals, a tie going to the even neighbour. It
  is not \<^verbatim>\<open>round(x, 2)\<close> of the program, which works on the binary value of a float64 and
  can go to the other neighbour at a tie; it is the rounding of the example table.
\<close>

definition rint :: "real \<Rightarrow> int" where
  "rint x =
     (let f = \<lfloor>x\<rfloor>; d = x - of_int f
      in if d < 1 / 2 then f else if 1 / 2 < d then f + 1 else if even f then f else f + 1)"

fun round2_exact :: "fl \<Rightarrow> fl" where
  "round2_exact (Fin x) = Fin (of_int (rint (x * 100)) / 100)"
| "round2_exact x = x"

section \<open>The arithmetic of the platform\<close>

text \<open>
  The sum and the mean of a column and \<^verbatim>\<open>round(x, 2)\<close> are computed by pandas and numpy on
  float64 values (on int64 values for a column of integers): an addition rounds, a sum of
  finite values can overflow to an infinity, a sum of int64 values wraps, and the result
  depends on the order of the additions, which differs between \<^verbatim>\<open>Series.sum\<close> and a
  \<^verbatim>\<open>groupby\<close>. These operations are parameters of the model: \<open>somme\<close> and \<open>moyenne\<close> give
  what \<^verbatim>\<open>Series.sum()\<close> and \<^verbatim>\<open>Series.mean()\<close> return for a non-empty list of non-null
  values, \<open>somme_groupe\<close> and \<open>moyenne_groupe\<close> the same for the groups of a
  \<^verbatim>\<open>groupby\<close>, and \<open>arrondi2\<close> what \<^verbatim>\<open>round(x, 2)\<close> returns for a value that is not NaN.
\<close>

record arith =
  somme :: "fl list \<Rightarrow> fl"
  moyenne :: "fl list \<Rightarrow> fl"
  arrondi2 :: "fl \<Rightarrow> fl"
  somme_groupe :: "fl list \<Rightarrow> fl"
  moyenne_groupe :: "fl list \<Rightarrow> fl"

text \<open>
  \<^verbatim>\<open>Series.sum()\<close> skips NaN and is 0 when nothing is left. When every value is greater
  than 0 and one of them is \<open>+inf\<close>, every order of the additions gives \<open>+inf\<close>.
  \<^verbatim>\<open>Series.mean()\<close> skips NaN and is NaN when nothing is left.
\<close>

definition sum_col :: "arith \<Rightarrow> fl list \<Rightarrow> fl" where
  "sum_col ar xs =
     (let ys = filter notnull xs
      in if ys = [] then Fin 0
         else if PInf \<in> set ys \<and> list_all gt0 ys then PInf
         else somme ar ys)"

definition mean_col :: "arith \<Rightarrow> fl list \<Rightarrow> fl" where
  "mean_col ar xs =
     (let ys = filter notnull xs
      in if ys = [] then NaN else moyenne ar ys)"

section \<open>Errors\<close>

datatype error =
    MissingColumns "string list"
  | IntCastingNaNError
  | OverflowError
  | ValueError
  | KeyError string

definition bind_r :: "error + 'a \<Rightarrow> ('a \<Rightarrow> error + 'b) \<Rightarrow> error + 'b" where
  "bind_r m f = (case m of Inl e \<Rightarrow> Inl e | Inr x \<Rightarrow> f x)"

fun map_result :: "('a \<Rightarrow> error + 'b) \<Rightarrow> 'a list \<Rightarrow> error + 'b list" where
  "map_result f [] = Inr []"
| "map_result f (x # xs) =
     bind_r (f x) (\<lambda>y. bind_r (map_result f xs) (\<lambda>ys. Inr (y # ys)))"

text \<open>
  \<^verbatim>\<open>astype(int)\<close> raises on NaN and on an infinity and casts a finite float64 to int64: the
  value is truncated towards zero, and a truncation outside the int64 range gives the
  smallest int64, as the cast of numpy does on x86-64.
\<close>

definition int64_cast :: "int \<Rightarrow> int" where
  "int64_cast i =
     (if - 9223372036854775808 \<le> i \<and> i < 9223372036854775808 then i
      else - 9223372036854775808)"

fun astype_int :: "fl \<Rightarrow> error + int" where
  "astype_int (Fin x) = Inr (int64_cast (trunc x))"
| "astype_int _ = Inl IntCastingNaNError"

text \<open>\<^verbatim>\<open>int(x)\<close> of Python gives an unbounded integer and raises on an infinity and on NaN.\<close>

fun py_int :: "fl \<Rightarrow> error + int" where
  "py_int (Fin x) = Inr (trunc x)"
| "py_int NaN = Inl ValueError"
| "py_int _ = Inl OverflowError"

section \<open>The uploaded table\<close>

text \<open>
  The uploaded sheet is a list of column names and a list of rows; a row gives the cell of
  each column. A cell read from the file is a number (NaN when the cell is empty) or a text.
  Column names are UTF-8 byte strings.
\<close>

datatype cell = Num fl | Text string

record raw_df =
  columns :: "string list"
  rows :: "(string \<Rightarrow> cell) list"

definition e_acute :: string where
  "e_acute = [CHR 0xC3, CHR 0xA9]"

definition col_annee_rcs :: string where
  "col_annee_rcs = ''Ann'' @ e_acute @ ''e RCS''"

definition col_annee_incub :: string where
  "col_annee_incub = ''Ann'' @ e_acute @ ''e entr'' @ e_acute @ ''e incubation''"

definition col_annee_primo :: string where
  "col_annee_primo = ''Ann'' @ e_acute @ ''e de primolev'' @ e_acute @ ''e''"

definition col_indus :: string where
  "col_indus = ''Indus+Bio'' @ e_acute @ ''co''"

definition col_numerique :: string where
  "col_numerique = ''Num'' @ e_acute @ ''rique''"

definition col_sante :: string where
  "col_sante = ''Sant'' @ e_acute"

definition col_deeptech :: string where
  "col_deeptech = ''Le projet est-il labellis'' @ e_acute @ '' Deeptech par la BPI ?''"

definition col_lien :: string where
  "col_lien = ''Lien recherche publique fr?''"

definition required_columns :: "string list" where
  "required_columns =
     [col_annee_rcs, col_annee_incub, col_annee_primo,
      ''Montant 2021 (si >100K)'', ''Montant 2022 (si >100K)'',
      ''Montant 2023 (si >100K)'', ''Montant 2024 (si >100K)'',
      col_indus, col_numerique, col_sante,
      ''EXOGENE'', ''ENDOGENE'',
      col_deeptech, col_lien]"

definition missing_cols :: "raw_df \<Rightarrow> string list" where
  "missing_cols df = filter (\<lambda>c. c \<notin> set (columns df)) required_columns"

section \<open>Pre-processing (\<^verbatim>\<open>app.py\<close>, lines 28 to 39)\<close>

text \<open>
  \<^verbatim>\<open>pd.to_numeric(errors='coerce')\<close> keeps a number and parses a text; a text that is not
  a number becomes NaN. The grammar of numbers that pandas accepts is the parameter
  \<open>parse\<close>.
\<close>

definition to_numeric :: "(string \<Rightarrow> fl option) \<Rightarrow> cell \<Rightarrow> fl" where
  "to_numeric parse c =
     (case c of Num x \<Rightarrow> x
      | Text s \<Rightarrow> (case parse s of Some x \<Rightarrow> x | None \<Rightarrow> NaN))"

definition fillna0 :: "fl \<Rightarrow> fl" where
  "fillna0 x = (if isna x then Fin 0 else x)"

definition coerce_annee :: "(string \<Rightarrow> fl option) \<Rightarrow> cell \<Rightarrow> fl" where
  "coerce_annee parse c = to_numeric parse c"

definition coerce_montant :: "(string \<Rightarrow> fl option) \<Rightarrow> cell \<Rightarrow> fl" where
  "coerce_montant parse c = fillna0 (to_numeric parse c)"

definition coerce_flag :: "(string \<Rightarrow> fl option) \<Rightarrow> cell \<Rightarrow> error + int" where
  "coerce_flag parse c = astype_int (fillna0 (to_numeric parse c))"

text \<open>A row of the table after pre-processing, one field for each required column.\<close>

record projet =
  annee_rcs :: fl
  annee_incub :: fl
  annee_primo :: fl
  montant_2021 :: fl
  montant_2022 :: fl
  montant_2023 :: fl
  montant_2024 :: fl
  indus_bioeco :: int
  numerique :: int
  sante :: int
  exogene :: int
  endogene :: int
  deeptech :: int
  lien_recherche :: int

definition pretraitement_row :: "(string \<Rightarrow> fl option) \<Rightarrow> (string \<Rightarrow> cell) \<Rightarrow> error + projet" where
  "pretraitement_row parse r =
     bind_r (coerce_flag parse (r col_indus)) (\<lambda>f1.
     bind_r (coerce_flag parse (r col_numerique)) (\<lambda>f2.
     bind_r (coerce_flag parse (r col_sante)) (\<lambda>f3.
     bind_r (coerce_flag parse (r ''EXOGENE'')) (\<lambda>f4.
     bind_r (coerce_flag parse (r ''ENDOGENE'')) (\<lambda>f5.
     bind_r (coerce_flag parse (r col_deeptech)) (\<lambda>f6.
     bind_r (coerce_flag parse (r col_lien)) (\<lambda>f7.
     Inr \<lparr> annee_rcs = coerce_annee parse (r col_annee_rcs),
           annee_incub = coerce_annee parse (r col_annee_incub),
           annee_primo = coerce_annee parse (r col_annee_primo),
           montant_2021 = coerce_montant parse (r ''Montant 2021 (si >100K)''),
           montant_2022 = coerce_montant parse (r ''Montant 2022 (si >100K)''),
           montant_2023 = coerce_montant parse (r ''Montant 2023 (si >100K)''),
           montant_2024 = coerce_montant parse (r ''Montant 2024 (si >100K)''),
           indus_bioeco = f1, numerique = f2, sante = f3,
           exogene = f4, endogene = f5, deeptech = f6, lien_recherche = f7 \<rparr>)))))))"

text \<open>
  Lines 23 to 39: the check of the required columns comes first and stops the script with
  the list of the missing names; only then are the cells coerced.
\<close>

definition pretraitements :: "(string \<Rightarrow> fl option) \<Rightarrow> raw_df \<Rightarrow> error + projet list" where
  "pretraitements parse df =
     (if missing_cols df \<noteq> [] then Inl (MissingColumns (missing_cols df))
      else map_result (pretraitement_row parse) (rows df))"

section \<open>Global analysis (\<^verbatim>\<open>app.py\<close>, lines 43 to 114)\<close>

definition annees_levee :: "int list" where
  "annees_levee = [2021, 2022, 2023, 2024]"

text \<open>
  The column \<^verbatim>\<open>f"Montant {annee} (si >100K)"\<close> of a row. The script reads it for the
  years of \<open>annees_levee\<close> only.
\<close>

definition montant :: "int \<Rightarrow> projet \<Rightarrow> fl" where
  "montant annee r =
     (if annee = 2021 then montant_2021 r
      else if annee = 2022 then montant_2022 r
      else if annee = 2023 then montant_2023 r
      else montant_2024 r)"

text \<open>\<^verbatim>\<open>df.loc[df[col] > 0]\<close>: the rows with a funding event in the year.\<close>

definition leves :: "int \<Rightarrow> projet list \<Rightarrow> projet list" where
  "leves annee df = filter (\<lambda>r. gt0 (montant annee r)) df"

record stat =
  nb_projets :: nat
  montant_total :: int
  delai_moyen :: cell

definition stats_annee :: "arith \<Rightarrow> projet list \<Rightarrow> int \<Rightarrow> error + stat" where
  "stats_annee ar df annee =
     (let sel = leves annee df;
          nb = length sel
      in bind_r (py_int (sum_col ar (map (montant annee) sel))) (\<lambda>total.
           let ecart_moyen =
                 (if nb > 0
                  then mean_col ar (map (\<lambda>r. fl_sub (annee_primo r) (annee_rcs r)) sel)
                  else NaN)
           in Inr \<lparr> nb_projets = nb,
                    montant_total = total,
                    delai_moyen = (if \<not> isna ecart_moyen then Num (arrondi2 ar ecart_moyen)
                                   else Text ''N/A'') \<rparr>))"

definition stats :: "arith \<Rightarrow> projet list \<Rightarrow> error + (int \<times> stat) list" where
  "stats ar df =
     map_result (\<lambda>annee. bind_r (stats_annee ar df annee) (\<lambda>s. Inr (annee, s))) annees_levee"

datatype ref_col = AnneeRCS | AnneeIncubation

fun annee_ref_col :: "ref_col \<Rightarrow> projet \<Rightarrow> fl" where
  "annee_ref_col AnneeRCS r = annee_rcs r"
| "annee_ref_col AnneeIncubation r = annee_incub r"

text \<open>
  A cross table: for each year, the count of each label.
  \<^verbatim>\<open>tranches.value_counts().reindex(labels, fill_value=0)\<close> counts every label, in the
  order of the labels; a value without a bucket is not counted.
\<close>

type_synonym crosstab = "(int \<times> (string \<times> nat) list) list"

definition value_counts_reindex :: "string list \<Rightarrow> string option list \<Rightarrow> (string \<times> nat) list" where
  "value_counts_reindex labels tranches =
     map (\<lambda>l. (l, length (filter (\<lambda>t. t = Some l) tranches))) labels"

definition table_age :: "ref_col \<Rightarrow> projet list \<Rightarrow> crosstab" where
  "table_age annee_ref df =
     map (\<lambda>annee_lev.
            let ages = map (\<lambda>r. fl_sub (Fin (of_int annee_lev)) (annee_ref_col annee_ref r))
                           (leves annee_lev df);
                tranches = map (pd_cut age_bins_edges age_bins_labels) ages
            in (annee_lev, value_counts_reindex age_bins_labels tranches))
         annees_levee"

definition df_tranches :: "projet list \<Rightarrow> crosstab" where
  "df_tranches df =
     map (\<lambda>annee_lev.
            let levs = map (montant annee_lev) (leves annee_lev df);
                tranches = map (pd_cut bins_edges bins_labels) levs
            in (annee_lev, value_counts_reindex bins_labels tranches))
         annees_levee"

text \<open>The column of a year and the sum of its counts.\<close>

definition colonne :: "(int \<times> (string \<times> 'a) list) list \<Rightarrow> int \<Rightarrow> (string \<times> 'a) list" where
  "colonne tab annee = (case map_of tab annee of Some c \<Rightarrow> c | None \<Rightarrow> [])"

definition total_colonne :: "(string \<times> nat) list \<Rightarrow> nat" where
  "total_colonne col = sum_list (map snd col)"

text \<open>
  \<^verbatim>\<open>df.div(df.sum(axis=0), axis=1).fillna(0) * 100\<close>. The division of two integer counts
  gives a float: 0 / 0 is NaN and c / 0 is infinite for a positive c.
\<close>

definition div_count :: "nat \<Rightarrow> nat \<Rightarrow> fl" where
  "div_count c t = (if t = 0 then (if c = 0 then NaN else PInf) else Fin (real c / real t))"

fun mul100 :: "fl \<Rightarrow> fl" where
  "mul100 (Fin x) = Fin (x * 100)"
| "mul100 x = x"

type_synonym pcttab = "(int \<times> (string \<times> fl) list) list"

definition pct_colonne :: "(string \<times> nat) list \<Rightarrow> (string \<times> fl) list" where
  "pct_colonne col =
     map (\<lambda>(l, c). (l, mul100 (fillna0 (div_count c (total_colonne col))))) col"

definition df_tranches_pct :: "crosstab \<Rightarrow> pcttab" where
  "df_tranches_pct tab = map (\<lambda>(annee, col). (annee, pct_colonne col)) tab"

section \<open>Analysis by theme (\<^verbatim>\<open>app.py\<close>, lines 116 to 226)\<close>

datatype flag_col = ColIndus | ColNumerique | ColSante | ColDeeptech | ColLien

fun flag :: "flag_col \<Rightarrow> projet \<Rightarrow> int" where
  "flag ColIndus r = indus_bioeco r"
| "flag ColNumerique r = numerique r"
| "flag ColSante r = sante r"
| "flag ColDeeptech r = deeptech r"
| "flag ColLien r = lien_recherche r"

datatype choix = Tous | Oui | Non

datatype choix_origine = TousOrigine | Exogene | Endogene

text \<open>
  What one themed block shows: the number of rows kept, whether the warning
  \<^verbatim>\<open>Aucun projet correspondant\<close> is shown, and the three tables when they are built.
\<close>

record analyse =
  nb_retenus :: nat
  avertissement :: bool
  tableaux :: "(crosstab \<times> crosstab \<times> pcttab) option"

definition df_filtre :: "projet list \<Rightarrow> flag_col \<Rightarrow> choix \<Rightarrow> projet list" where
  "df_filtre df_source filtre_col ch =
     (case ch of
        Oui \<Rightarrow> filter (\<lambda>r. flag filtre_col r = 1) df_source
      | Non \<Rightarrow> filter (\<lambda>r. flag filtre_col r = 0) df_source
      | Tous \<Rightarrow> df_source)"

definition analyse_par_filtre :: "ref_col \<Rightarrow> projet list \<Rightarrow> flag_col \<Rightarrow> choix \<Rightarrow> analyse" where
  "analyse_par_filtre annee_ref df_source filtre_col ch =
     (let df_filtre = df_filtre df_source filtre_col ch
      in if length df_filtre = 0
         then \<lparr> nb_retenus = length df_filtre, avertissement = True, tableaux = None \<rparr>
         else \<lparr> nb_retenus = length df_filtre, avertissement = False,
                tableaux = Some (table_age annee_ref df_filtre,
                                 df_tranches df_filtre,
                                 df_tranches_pct (df_tranches df_filtre)) \<rparr>)"

definition df_exoendo :: "projet list \<Rightarrow> choix_origine \<Rightarrow> projet list" where
  "df_exoendo df choix_exoendo =
     (case choix_exoendo of
        Exogene \<Rightarrow> filter (\<lambda>r. exogene r = 1) df
      | Endogene \<Rightarrow> filter (\<lambda>r. endogene r = 1) df
      | TousOrigine \<Rightarrow> df)"

definition analyse_exoendo :: "ref_col \<Rightarrow> projet list \<Rightarrow> choix_origine \<Rightarrow> analyse" where
  "analyse_exoendo annee_ref df choix_exoendo =
     (let df_exoendo = df_exoendo df choix_exoendo
      in if length df_exoendo > 0
         then \<lparr> nb_retenus = length df_exoendo, avertissement = False,
                tableaux = Some (table_age annee_ref df_exoendo,
                                 df_tranches df_exoendo,
                                 df_tranches_pct (df_tranches df_exoendo)) \<rparr>
         else \<lparr> nb_retenus = length df_exoendo, avertissement = False, tableaux = None \<rparr>)"

section \<open>The whole script \<^verbatim>\<open>app.py\<close>\<close>

text \<open>
  The widgets are parameters: the reference year, the choice of each themed block and the
  choice of the origin block; so are the arithmetic of the platform and the grammar of
  numbers. The script stops at the first error.
\<close>

record rapport =
  total_projets :: nat
  stats_globales :: "(int \<times> stat) list"
  table_age_global :: crosstab
  df_tranches_global :: crosstab
  df_tranches_pct_global :: pcttab
  par_theme :: "(flag_col \<times> analyse) list"
  par_exoendo :: analyse

definition app :: "arith \<Rightarrow> (string \<Rightarrow> fl option) \<Rightarrow> ref_col \<Rightarrow> (flag_col \<Rightarrow> choix)
    \<Rightarrow> choix_origine \<Rightarrow> raw_df \<Rightarrow> error + rapport" where
  "app ar parse annee_ref choix_theme choix_exoendo raw =
     bind_r (pretraitements parse raw) (\<lambda>df.
     bind_r (stats ar df) (\<lambda>st.
     Inr \<lparr> total_projets = length df,
           stats_globales = st,
           table_age_global = table_age annee_ref df,
           df_tranches_global = df_tranches df,
           df_tranches_pct_global = df_tranches_pct (df_tranches df),
           par_theme = map (\<lambda>c. (c, analyse_par_filtre annee_ref df c (choix_theme c)))
                           [ColIndus, ColNumerique, ColSante, ColDeeptech, ColLien],
           par_exoendo = analyse_exoendo annee_ref df choix_exoendo \<rparr>))"

section \<open>The second variant, \<^verbatim>\<open>app2.py\<close>\<close>

definition year_cols :: "string list" where
  "year_cols =
     [''Montant 2021 (si >100K)'', ''Montant 2022 (si >100K)'',
      ''Montant 2023 (si >100K)'', ''Montant 2024 (si >100K)'']"

text \<open>
  Lines 24 to 38. The amount columns are made numeric, with no zero-filling; reading a
  column that the table does not have raises a KeyError. Then every non-null amount of
  every row is one funding event of the year \<open>2021 + i\<close>.
\<close>

definition levees :: "(string \<Rightarrow> fl option) \<Rightarrow> raw_df \<Rightarrow> error + (int \<times> fl) list" where
  "levees parse df =
     (case filter (\<lambda>c. c \<notin> set (columns df)) year_cols of
        c # _ \<Rightarrow> Inl (KeyError c)
      | [] \<Rightarrow>
          Inr (concat (map (\<lambda>row.
                 concat (map (\<lambda>(i, col).
                           let montant = to_numeric parse (row col)
                           in if notnull montant then [(2021 + int i, montant)] else [])
                         (enumerate 0 year_cols)))
               (rows df))))"

text \<open>
  Lines 40 to 49. The \<^verbatim>\<open>groupby\<close> on the year has one group for each year that has an event, in
  increasing order; on a frame built from no event it raises a KeyError, the frame having
  no column. The amounts of a group are not null, so its sum and mean are the platform's.
\<close>

definition groupby_annee :: "(int \<times> fl) list \<Rightarrow> (int \<times> fl list) list" where
  "groupby_annee lv =
     map (\<lambda>a. (a, map snd (filter (\<lambda>e. fst e = a) lv))) (sort (remdups (map fst lv)))"

record ligne_synthese =
  nb_levees :: nat
  montant_total_annee :: fl
  montant_moyen :: fl

definition synthese :: "arith \<Rightarrow> (string \<Rightarrow> fl option) \<Rightarrow> raw_df
    \<Rightarrow> error + (int \<times> ligne_synthese) list" where
  "synthese ar parse df =
     bind_r (levees parse df) (\<lambda>lv.
       if lv = [] then Inl (KeyError (''Ann'' @ e_acute @ ''e''))
       else Inr (map (\<lambda>(a, ms). (a, \<lparr> nb_levees = length (filter notnull ms),
                                      montant_total_annee = somme_groupe ar ms,
                                      montant_moyen = moyenne_groupe ar ms \<rparr>))
                     (groupby_annee lv)))"

text \<open>The filters of lines 84 to 105, applied one after the other.\<close>

datatype filiere = F_Indus | F_Numerique | F_Sante

fun filieres :: "filiere \<Rightarrow> string" where
  "filieres F_Indus = col_indus"
| "filieres F_Numerique = col_numerique"
| "filieres F_Sante = col_sante"

record selection =
  selected_filiere :: "filiere list"
  deeptech_uniquement :: bool
  lien_uniquement :: bool
  endo_exo :: choix_origine

text \<open>\<^verbatim>\<open>series == 1\<close> on a cell of the uploaded table.\<close>

definition eq1 :: "cell \<Rightarrow> bool" where
  "eq1 c = (c = Num (Fin 1))"

definition eq0 :: "cell \<Rightarrow> bool" where
  "eq0 c = (c = Num (Fin 0))"

definition masque_filieres :: "raw_df \<Rightarrow> filiere list \<Rightarrow> bool list" where
  "masque_filieres df sel =
     foldl (\<lambda>masque f. map2 (\<or>) masque (map (\<lambda>r. eq1 (r (filieres f))) (rows df)))
           (replicate (length (rows df)) False) sel"

definition boolean_index :: "'a list \<Rightarrow> bool list \<Rightarrow> 'a list" where
  "boolean_index xs masque = map fst (filter snd (zip xs masque))"

definition select_eq1 :: "string list \<Rightarrow> string \<Rightarrow> (string \<Rightarrow> cell) list
    \<Rightarrow> error + (string \<Rightarrow> cell) list" where
  "select_eq1 cols c rs =
     (if c \<in> set cols then Inr (filter (\<lambda>r. eq1 (r c)) rs) else Inl (KeyError c))"

definition filtre :: "selection \<Rightarrow> raw_df \<Rightarrow> error + (string \<Rightarrow> cell) list" where
  "filtre sel df =
     bind_r (if selected_filiere sel \<noteq> []
             then (case filter (\<lambda>f. filieres f \<notin> set (columns df)) (selected_filiere sel) of
                     f # _ \<Rightarrow> Inl (KeyError (filieres f))
                   | [] \<Rightarrow> Inr (boolean_index (rows df)
                                  (masque_filieres df (selected_filiere sel))))
             else Inr (rows df)) (\<lambda>f1.
     bind_r (if deeptech_uniquement sel then select_eq1 (columns df) ''Deeptech'' f1
             else Inr f1) (\<lambda>f2.
     bind_r (if lien_uniquement sel then select_eq1 (columns df) col_lien f2
             else Inr f2) (\<lambda>f3.
     (case endo_exo sel of
        Endogene \<Rightarrow> select_eq1 (columns df) ''ENDOGENE'' f3
      | Exogene \<Rightarrow> select_eq1 (columns df) ''EXOGENE'' f3
      | TousOrigine \<Rightarrow> Inr f3))))"

section \<open>The specification's reading of some operations\<close>

text \<open>
  The criteria of a filter selection as the specification describes them: a sector
  criterion that passes a row positive on any selected tag (every row when no tag is
  selected), a tri-state criterion on a flag column, and the origin criterion.
\<close>

datatype critere = Secteur "string list" | Drapeau string choix | Origine choix_origine

fun satisfait :: "critere \<Rightarrow> (string \<Rightarrow> cell) \<Rightarrow> bool" where
  "satisfait (Secteur cs) r = (cs = [] \<or> (\<exists>c \<in> set cs. eq1 (r c)))"
| "satisfait (Drapeau c Tous) r = True"
| "satisfait (Drapeau c Oui) r = eq1 (r c)"
| "satisfait (Drapeau c Non) r = eq0 (r c)"
| "satisfait (Origine TousOrigine) r = True"
| "satisfait (Origine Exogene) r = eq1 (r ''EXOGENE'')"
| "satisfait (Origine Endogene) r = eq1 (r ''ENDOGENE'')"

definition appliquer :: "critere \<Rightarrow> (string \<Rightarrow> cell) list \<Rightarrow> (string \<Rightarrow> cell) list" where
  "appliquer c rs = filter (satisfait c) rs"

definition appliquer_tous :: "critere list \<Rightarrow> (string \<Rightarrow> cell) list \<Rightarrow> (string \<Rightarrow> cell) list" where
  "appliquer_tous cs rs = foldl (\<lambda>acc c. appliquer c acc) rs cs"

definition criteres :: "selection \<Rightarrow> critere list" where
  "criteres sel =
     [Secteur (map filieres (selected_filiere sel)),
      Drapeau ''Deeptech'' (if deeptech_uniquement sel then Oui else Tous),
      Drapeau col_lien (if lien_uniquement sel then Oui else Tous),
      Origine (endo_exo sel)]"

text \<open>
  The summary mean as the specification words it: the mean of the qualifying amounts of
  the year, the sentinel when there is none.
\<close>

definition spec_mean_of_amounts :: "projet list \<Rightarrow> int \<Rightarrow> cell" where
  "spec_mean_of_amounts df annee =
     (if leves annee df = [] then Text ''N/A''
      else Num (series_mean (map (montant annee) (leves annee df))))"

text \<open>
  The zero-row report as the specification words it: a count of 0 and the tables present
  with every bucket count 0.
\<close>

definition tous_zero :: "crosstab \<Rightarrow> bool" where
  "tous_zero tab = (\<forall>col \<in> set tab. \<forall>cellule \<in> set (snd col). snd cellule = 0)"

definition spec_zero_row_report :: "analyse \<Rightarrow> bool" where
  "spec_zero_row_report a =
     (nb_retenus a = 0 \<and>
      (case tableaux a of
         None \<Rightarrow> False
       | Some (ages, tranches, pct) \<Rightarrow>
           map fst ages = annees_levee \<and> map fst tranches = annees_levee \<and>
           tous_zero ages \<and> tous_zero tranches))"

text \<open>
  Rounded to two decimals, as the specification of a displayed mean: the value shown is a
  whole number of hundredths at most half a hundredth away from the mean.
\<close>

definition au_centieme :: "real \<Rightarrow> fl \<Rightarrow> bool" where
  "au_centieme x y =
     (case y of
        Fin d \<Rightarrow> d * 100 = of_int \<lfloor>d * 100\<rfloor> \<and> \<bar>d - x\<bar> \<le> 1 / 200
      | _ \<Rightarrow> False)"

text \<open>The finite value of a cell, for sums written over the reals.\<close>

fun valeur :: "fl \<Rightarrow> real" where
  "valeur (Fin x) = x"
| "valeur _ = 0"

section \<open>An example table\<close>

text \<open>
  Three projects: one with a 2021 amount given as text and a known incorporation year, one
  with an explicit zero for 2021, a 2022 amount and an unreadable incorporation year, and
  one with a 2021 amount and no incorporation year.
\<close>

definition exemple_parse :: "string \<Rightarrow> fl option" where
  "exemple_parse s =
     (if s = ''600000'' then Some (Fin 600000)
      else if s = ''1'' then Some (Fin 1)
      else None)"

definition exemple_rows :: "(string \<Rightarrow> cell) list" where
  "exemple_rows =
     [(\<lambda>c. Num NaN)
        (col_annee_rcs := Num (Fin 2020), col_annee_primo := Num (Fin 2021),
         ''Montant 2021 (si >100K)'' := Text ''600000'', col_numerique := Num (Fin 1)),
      (\<lambda>c. Num NaN)
        (col_annee_rcs := Text ''inconnu'', col_annee_primo := Num (Fin 2022),
         ''Montant 2021 (si >100K)'' := Num (Fin 0),
         ''Montant 2022 (si >100K)'' := Num (Fin 1200000), col_sante := Num (Fin 1)),
      (\<lambda>c. Num NaN)
        (''Montant 2021 (si >100K)'' := Num (Fin 750000), col_annee_incub := Num (Fin 2019))]"

definition exemple_raw :: raw_df where
  "exemple_raw = \<lparr> columns = required_columns, rows = exemple_rows \<rparr>"

definition exemple_df :: "projet list" where
  "exemple_df =
     [\<lparr> annee_rcs = Fin 2020, annee_incub = NaN, annee_primo = Fin 2021,
        montant_2021 = Fin 600000, montant_2022 = Fin 0, montant_2023 = Fin 0,
        montant_2024 = Fin 0, indus_bioeco = 0, numerique = 1, sante = 0,
        exogene = 0, endogene = 0, deeptech = 0, lien_recherche = 0 \<rparr>,
      \<lparr> annee_rcs = NaN, annee_incub = NaN, annee_primo = Fin 2022,
        montant_2021 = Fin 0, montant_2022 = Fin 1200000, montant_2023 = Fin 0,
        montant_2024 = Fin 0, indus_bioeco = 0, numerique = 0, sante = 1,
        exogene = 0, endogene = 0, deeptech = 0, lien_recherche = 0 \<rparr>,
      \<lparr> annee_rcs = NaN, annee_incub = Fin 2019, annee_primo = NaN,
        montant_2021 = Fin 750000, montant_2022 = Fin 0, montant_2023 = Fin 0,
        montant_2024 = Fin 0, indus_bioeco = 0, numerique = 0, sante = 0,
        exogene = 0, endogene = 0, deeptech = 0, lien_recherche = 0 \<rparr>]"

text \<open>
  Arithmetic without rounding. The values of the example table are small integers, on
  which the float64 operations of the platform are exact and give the same results.
\<close>

definition arith_exact :: arith where
  "arith_exact =
     \<lparr> somme = series_sum, moyenne = series_mean, arrondi2 = round2_exact,
       somme_groupe = series_sum, moyenne_groupe = series_mean \<rparr>"

section \<open>Bucket membership\<close>

lemma age_cut_cases:
  "pd_cut age_bins_edges age_bins_labels (Fin v) =
     Some (if v < 1 then ''<1 an'' else if v < 2 then ''1-2 ans''
           else if v < 3 then ''2-3 ans'' else ''>3 ans'')"
  by (simp add: pd_cut_def searchsorted_right_def age_bins_edges_def age_bins_labels_def)

lemma amount_cut_cases:
  "pd_cut bins_edges bins_labels (Fin v) =
     Some (if v < 500000 then ''<500k'' else if v < 1000000 then ''500k-1M''
           else if v < 2000000 then ''1M-2M'' else if v < 5000000 then ''2M-5M'' else ''>5M'')"
  by (simp add: pd_cut_def searchsorted_right_def bins_edges_def bins_labels_def)

lemma age_bucket_iff:
  "i < 4 \<Longrightarrow> (pd_cut age_bins_edges age_bins_labels (Fin v) = Some (age_bins_labels ! i))
     = in_bucket age_bins_edges i (Fin v)"
proof -
  assume "i < 4"
  then consider "i = 0" | "i = 1" | "i = 2" | "i = 3" by linarith
  then show ?thesis
    unfolding age_cut_cases in_bucket_def
    by cases (auto simp: age_bins_edges_def age_bins_labels_def)
qed

lemma amount_bucket_iff:
  "i < 5 \<Longrightarrow> (pd_cut bins_edges bins_labels (Fin v) = Some (bins_labels ! i))
     = in_bucket bins_edges i (Fin v)"
proof -
  assume "i < 5"
  then consider "i = 0" | "i = 1" | "i = 2" | "i = 3" | "i = 4" by linarith
  then show ?thesis
    unfolding amount_cut_cases in_bucket_def
    by cases (auto simp: bins_edges_def bins_labels_def)
qed

lemma age_cut_index:
  "\<exists>i<4. pd_cut age_bins_edges age_bins_labels (Fin v) = Some (age_bins_labels ! i)"
proof -
  let ?i = "if v < 1 then 0 else if v < 2 then 1 else if v < 3 then 2 else (3::nat)"
  have "?i < 4" by simp
  moreover have "pd_cut age_bins_edges age_bins_labels (Fin v) = Some (age_bins_labels ! ?i)"
    unfolding age_cut_cases by (simp add: age_bins_labels_def)
  ultimately show ?thesis by blast
qed

lemma amount_cut_index:
  "\<exists>i<5. pd_cut bins_edges bins_labels (Fin v) = Some (bins_labels ! i)"
proof -
  let ?i = "if v < 500000 then 0 else if v < 1000000 then 1 else if v < 2000000 then 2
            else if v < 5000000 then 3 else (4::nat)"
  have "?i < 5" by simp
  moreover have "pd_cut bins_edges bins_labels (Fin v) = Some (bins_labels ! ?i)"
    unfolding amount_cut_cases by (simp add: bins_labels_def)
  ultimately show ?thesis by blast
qed

lemma distinct_age_labels: "distinct age_bins_labels"
  by (simp add: age_bins_labels_def)

lemma distinct_bins_labels: "distinct bins_labels"
  by (simp add: bins_labels_def)

lemma age_bucket_unique: "\<exists>!i. i < 4 \<and> in_bucket age_bins_edges i (Fin v)"
proof -
  obtain i where i: "i < 4" "pd_cut age_bins_edges age_bins_labels (Fin v) = Some (age_bins_labels ! i)"
    using age_cut_index by blast
  have "in_bucket age_bins_edges i (Fin v)" using i age_bucket_iff by blast
  moreover have "j = i" if "j < 4" "in_bucket age_bins_edges j (Fin v)" for j
  proof -
    have "pd_cut age_bins_edges age_bins_labels (Fin v) = Some (age_bins_labels ! j)"
      using that age_bucket_iff by blast
    then have "age_bins_labels ! j = age_bins_labels ! i" using i by simp
    moreover have "length age_bins_labels = 4" by (simp add: age_bins_labels_def)
    ultimately show ?thesis using distinct_age_labels that(1) i(1)
      by (simp add: nth_eq_iff_index_eq)
  qed
  ultimately show ?thesis using i(1) by blast
qed

lemma amount_bucket_unique: "\<exists>!i. i < 5 \<and> in_bucket bins_edges i (Fin v)"
proof -
  obtain i where i: "i < 5" "pd_cut bins_edges bins_labels (Fin v) = Some (bins_labels ! i)"
    using amount_cut_index by blast
  have "in_bucket bins_edges i (Fin v)" using i amount_bucket_iff by blast
  moreover have "j = i" if "j < 5" "in_bucket bins_edges j (Fin v)" for j
  proof -
    have "pd_cut bins_edges bins_labels (Fin v) = Some (bins_labels ! j)"
      using that amount_bucket_iff by blast
    then have "bins_labels ! j = bins_labels ! i" using i by simp
    moreover have "length bins_labels = 5" by (simp add: bins_labels_def)
    ultimately show ?thesis using distinct_bins_labels that(1) i(1)
      by (simp add: nth_eq_iff_index_eq)
  qed
  ultimately show ?thesis using i(1) by blast
qed

text \<open>
  C1. For every finite value \<open>v\<close> and both fixed edge sets, \<open>pd_cut\<close> gives the label of
  bucket \<open>i\<close> exactly when \<open>edges[i] \<le> v < edges[i+1]\<close>, and exactly one bucket holds \<open>v\<close>.
  The boundary value 500000 falls in \<open>500k-1M\<close>, a negative age in \<open><1 an\<close>.
\<close>

theorem bucketize_half_open:
  "(\<forall>i<4. (pd_cut age_bins_edges age_bins_labels (Fin v) = Some (age_bins_labels ! i))
            = in_bucket age_bins_edges i (Fin v))
   \<and> (\<exists>!i. i < 4 \<and> in_bucket age_bins_edges i (Fin v))
   \<and> (\<forall>i<5. (pd_cut bins_edges bins_labels (Fin v) = Some (bins_labels ! i))
            = in_bucket bins_edges i (Fin v))
   \<and> (\<exists>!i. i < 5 \<and> in_bucket bins_edges i (Fin v))
   \<and> pd_cut bins_edges bins_labels (Fin 500000) = Some ''500k-1M''
   \<and> (v < 0 \<longrightarrow> pd_cut age_bins_edges age_bins_labels (Fin v) = Some ''<1 an'')"
  using age_bucket_iff [of _ v] amount_bucket_iff [of _ v] age_bucket_unique [of v]
    amount_bucket_unique [of v]
  by (simp add: age_cut_cases amount_cut_cases)

theorem bucketize_half_open_witness:
  "pd_cut bins_edges bins_labels (Fin 750000) = Some (bins_labels ! 1)
   \<and> in_bucket bins_edges 1 (Fin 750000)
   \<and> pd_cut age_bins_edges age_bins_labels (Fin (- 2)) = Some ''<1 an''
   \<and> in_bucket age_bins_edges 0 (Fin (- 2))"
proof -
  have a: "in_bucket bins_edges 1 (Fin 750000)"
    by (simp add: in_bucket_def bins_edges_def)
  have b: "in_bucket age_bins_edges 0 (Fin (- 2))"
    by (simp add: in_bucket_def age_bins_edges_def)
  have c: "(1::nat) < 5" and d: "(- 2 :: real) < 0" by simp_all
  show ?thesis
    using a b c d bucketize_half_open [of "750000"] bucketize_half_open [of "- 2"]
    by simp
qed

section \<open>Cross tables\<close>

lemma map_of_graph:
  "a \<in> set xs \<Longrightarrow> map_of (map (\<lambda>x. (x, f x)) xs) a = Some (f a)"
  by (induction xs) auto

lemma colonne_table_age:
  "annee \<in> set annees_levee \<Longrightarrow>
   colonne (table_age annee_ref df) annee =
     value_counts_reindex age_bins_labels
       (map (\<lambda>r. pd_cut age_bins_edges age_bins_labels
                   (fl_sub (Fin (of_int annee)) (annee_ref_col annee_ref r)))
            (leves annee df))"
  by (simp add: colonne_def table_age_def map_of_graph Let_def comp_def)

lemma colonne_df_tranches:
  "annee \<in> set annees_levee \<Longrightarrow>
   colonne (df_tranches df) annee =
     value_counts_reindex bins_labels
       (map (\<lambda>r. pd_cut bins_edges bins_labels (montant annee r)) (leves annee df))"
  by (simp add: colonne_def df_tranches_def map_of_graph Let_def comp_def)


lemma total_value_counts_Nil: "total_colonne (value_counts_reindex labels []) = 0"
  by (simp add: total_colonne_def value_counts_reindex_def comp_def)

lemma total_value_counts_Cons:
  "distinct labels \<Longrightarrow>
   total_colonne (value_counts_reindex labels (t # ts)) =
     (if \<exists>l \<in> set labels. t = Some l then 1 else 0)
       + total_colonne (value_counts_reindex labels ts)"
proof (induction labels)
  case Nil
  then show ?case by (simp add: total_colonne_def value_counts_reindex_def)
next
  case (Cons l ls)
  then have "total_colonne (value_counts_reindex ls (t # ts)) =
     (if \<exists>l \<in> set ls. t = Some l then 1 else 0) + total_colonne (value_counts_reindex ls ts)"
    by simp
  moreover have "l \<notin> set ls" using Cons.prems by simp
  ultimately show ?case
    by (auto simp: total_colonne_def value_counts_reindex_def comp_def)
qed

lemma total_value_counts:
  "distinct labels \<Longrightarrow>
   total_colonne (value_counts_reindex labels ts) =
     length (filter (\<lambda>t. \<exists>l \<in> set labels. t = Some l) ts)"
  by (induction ts) (simp_all add: total_value_counts_Nil total_value_counts_Cons)


section \<open>Sums of qualifying amounts\<close>

lemma gt0_cases: "gt0 x \<Longrightarrow> (\<exists>a. x = Fin a \<and> 0 < a) \<or> x = PInf"
  by (cases x) (simp_all add: gt0_def)

lemma gt0_notnull: "gt0 x \<Longrightarrow> notnull x"
  by (cases x) (simp_all add: gt0_def notnull_def)

lemma series_sum_Cons:
  "notnull x \<Longrightarrow> series_sum (x # xs) = fl_add x (series_sum xs)"
  by (simp add: series_sum_def)

lemma series_sum_gt0:
  "\<forall>x \<in> set xs. gt0 x \<Longrightarrow>
   series_sum xs = (if PInf \<in> set xs then PInf else Fin (sum_list (map valeur xs)))"
proof (induction xs)
  case Nil
  then show ?case by (simp add: series_sum_def)
next
  case (Cons x xs)
  then have ih: "series_sum xs = (if PInf \<in> set xs then PInf else Fin (sum_list (map valeur xs)))"
    by simp
  have "gt0 x" using Cons.prems by simp
  then consider a where "x = Fin a" | "x = PInf" using gt0_cases by blast
  then show ?case
  proof cases
    case 1
    then show ?thesis using ih by (simp add: series_sum_Cons notnull_def)
  next
    case 2
    then show ?thesis using ih by (simp add: series_sum_Cons notnull_def)
  qed
qed

lemma bind_r_Inr: "bind_r m f = Inr y \<Longrightarrow> \<exists>x. m = Inr x \<and> f x = Inr y"
  by (cases m) (simp_all add: bind_r_def)

lemma map_result_Inr:
  "map_result f xs = Inr ys \<Longrightarrow> x \<in> set xs \<Longrightarrow> \<exists>y. f x = Inr y \<and> y \<in> set ys"
proof (induction xs arbitrary: ys)
  case Nil
  then show ?case by simp
next
  case (Cons a xs)
  from Cons.prems(1) have "bind_r (f a) (\<lambda>y. bind_r (map_result f xs) (\<lambda>zs. Inr (y # zs))) = Inr ys"
    by simp
  then obtain y where y: "f a = Inr y"
    and rest: "bind_r (map_result f xs) (\<lambda>zs. Inr (y # zs)) = Inr ys"
    using bind_r_Inr by fastforce
  from rest obtain zs where zs: "map_result f xs = Inr zs" and ys: "ys = y # zs"
    using bind_r_Inr [OF rest] by auto
  show ?case
  proof (cases "x = a")
    case True
    then show ?thesis using y ys by simp
  next
    case False
    then have "x \<in> set xs" using Cons.prems(2) by simp
    then show ?thesis using Cons.IH [OF zs] ys by auto
  qed
qed

lemma stats_annee_ok:
  "stats ar df = Inr st \<Longrightarrow> annee \<in> set annees_levee \<Longrightarrow> \<exists>s. stats_annee ar df annee = Inr s"
  unfolding stats_def
  by (drule map_result_Inr, assumption) (auto dest!: bind_r_Inr)

lemma sum_col_pos_inf:
  assumes "\<forall>x \<in> set xs. gt0 x" and "PInf \<in> set xs"
  shows "sum_col ar xs = PInf"
proof -
  have "filter notnull xs = xs" using assms(1) gt0_notnull by (intro filter_True) blast
  moreover have "xs \<noteq> []" using assms(2) by auto
  moreover have "list_all gt0 xs" using assms(1) by (simp add: list_all_iff)
  ultimately show ?thesis using assms(2) by (simp add: sum_col_def)
qed

lemma stats_annee_finite:
  assumes "stats_annee ar df annee = Inr s" and "r \<in> set (leves annee df)"
  shows "\<exists>a. montant annee r = Fin a \<and> 0 < a"
proof -
  let ?xs = "map (montant annee) (leves annee df)"
  have pos: "\<forall>x \<in> set ?xs. gt0 x" by (auto simp: leves_def)
  from assms(1) obtain total where "py_int (sum_col ar ?xs) = Inr total"
    unfolding stats_annee_def Let_def by (auto dest!: bind_r_Inr)
  then have "sum_col ar ?xs \<noteq> PInf" by auto
  then have "PInf \<notin> set ?xs"
    using sum_col_pos_inf [OF pos] by blast
  then have "montant annee r \<noteq> PInf" using assms(2) by force
  moreover have "gt0 (montant annee r)" using assms(2) by (simp add: leves_def)
  ultimately show ?thesis using gt0_cases by blast
qed

lemma stats_leves_finite:
  "stats ar df = Inr st \<Longrightarrow> annee \<in> set annees_levee \<Longrightarrow> r \<in> set (leves annee df) \<Longrightarrow>
   \<exists>a. montant annee r = Fin a \<and> 0 < a"
  using stats_annee_ok stats_annee_finite by blast

lemma amount_cut_label: "\<exists>l \<in> set bins_labels. pd_cut bins_edges bins_labels (Fin a) = Some l"
  unfolding amount_cut_cases by (simp add: bins_labels_def)

lemma leves_subset: "set df' \<subseteq> set df \<Longrightarrow> set (leves annee df') \<subseteq> set (leves annee df)"
  by (auto simp: leves_def)

lemma total_df_tranches:
  assumes "stats ar df = Inr st" and "annee \<in> set annees_levee" and "set df' \<subseteq> set df"
  shows "total_colonne (colonne (df_tranches df') annee) = length (leves annee df')"
proof -
  have "\<exists>l \<in> set bins_labels. pd_cut bins_edges bins_labels (montant annee r) = Some l"
    if "r \<in> set (leves annee df')" for r
  proof -
    from that have "r \<in> set (leves annee df)" using leves_subset [OF assms(3)] by blast
    then obtain a where "montant annee r = Fin a"
      using stats_leves_finite [OF assms(1,2)] by blast
    then show ?thesis using amount_cut_label by simp
  qed
  then have "filter (\<lambda>t. \<exists>l \<in> set bins_labels. t = Some l)
               (map (\<lambda>r. pd_cut bins_edges bins_labels (montant annee r)) (leves annee df'))
             = map (\<lambda>r. pd_cut bins_edges bins_labels (montant annee r)) (leves annee df')"
    by (intro filter_True) auto
  then show ?thesis
    by (simp add: colonne_df_tranches [OF assms(2)] total_value_counts distinct_bins_labels)
qed

section \<open>The example table, evaluated\<close>

lemmas col_defs = col_annee_rcs_def col_annee_incub_def col_annee_primo_def col_indus_def
  col_numerique_def col_sante_def col_deeptech_def col_lien_def e_acute_def

lemma exemple_missing: "missing_cols exemple_raw = []"
  by (simp add: missing_cols_def exemple_raw_def)

lemma exemple_pretraitements: "pretraitements exemple_parse exemple_raw = Inr exemple_df"
  by (simp add: pretraitements_def exemple_missing)
     (simp add: exemple_raw_def exemple_rows_def exemple_df_def pretraitement_row_def
        coerce_flag_def coerce_annee_def coerce_montant_def to_numeric_def fillna0_def
        exemple_parse_def bind_r_def trunc_def int64_cast_def col_defs)

lemma exemple_leves_2021: "leves 2021 exemple_df = [exemple_df ! 0, exemple_df ! 2]"
  by (simp add: leves_def exemple_df_def montant_def gt0_def)

lemma exemple_stats: "\<exists>st. stats arith_exact exemple_df = Inr st"
  by (simp add: stats_def annees_levee_def stats_annee_def Let_def leves_def exemple_df_def
      montant_def gt0_def sum_col_def arith_exact_def series_sum_def notnull_def bind_r_def)

section \<open>The amount table\<close>




lemma years_table_age: "map fst (table_age annee_ref df) = annees_levee"
  by (simp add: table_age_def comp_def Let_def)



section \<open>Rows without a reference year\<close>

lemma isna_iff: "isna x = (x = NaN)"
  by (cases x) simp_all

lemma age_of_unknown: "isna x \<Longrightarrow> pd_cut age_bins_edges age_bins_labels (fl_sub (Fin y) x) = None"
  by (simp add: isna_iff fl_sub_def pd_cut_def)

lemma value_counts_drop_None:
  "value_counts_reindex labels (xs @ None # ys) = value_counts_reindex labels (xs @ ys)"
  by (simp add: value_counts_reindex_def)

lemma leves_insert:
  "gt0 (montant annee r) \<Longrightarrow>
   leves annee (rs1 @ r # rs2) = leves annee rs1 @ r # leves annee rs2"
  by (simp add: leves_def)

lemma leves_append: "leves annee (rs1 @ rs2) = leves annee rs1 @ leves annee rs2"
  by (simp add: leves_def)

lemma total_table_age_le:
  "annee \<in> set annees_levee \<Longrightarrow>
   total_colonne (colonne (table_age annee_ref df) annee) \<le> length (leves annee df)"
proof -
  assume y: "annee \<in> set annees_levee"
  let ?ts = "map (\<lambda>r. pd_cut age_bins_edges age_bins_labels
                   (fl_sub (Fin (of_int annee)) (annee_ref_col annee_ref r))) (leves annee df)"
  have "total_colonne (colonne (table_age annee_ref df) annee)
        = length (filter (\<lambda>t. \<exists>l \<in> set age_bins_labels. t = Some l) ?ts)"
    by (simp add: colonne_table_age [OF y] total_value_counts distinct_age_labels)
  also have "\<dots> \<le> length ?ts" by (rule length_filter_le)
  finally show ?thesis by simp
qed

text \<open>
  C9. Take a row whose reference year is unknown and a year in which its amount qualifies,
  in a table on which the summary statistics were computed. The row has no age bucket: the
  age column of that year is the same as without the row, and its counts sum to less than
  the number of qualifying rows. The amount column of that year counts the row: its total
  is one more than without the row.
\<close>

theorem unknown_reference_year:
  assumes "stats ar (rs1 @ r # rs2) = Inr st"
    and "annee \<in> set annees_levee"
    and "isna (annee_ref_col annee_ref r)"
    and "gt0 (montant annee r)"
  shows "pd_cut age_bins_edges age_bins_labels
           (fl_sub (Fin (of_int annee)) (annee_ref_col annee_ref r)) = None
     \<and> colonne (table_age annee_ref (rs1 @ r # rs2)) annee
         = colonne (table_age annee_ref (rs1 @ rs2)) annee
     \<and> total_colonne (colonne (table_age annee_ref (rs1 @ r # rs2)) annee)
         < length (leves annee (rs1 @ r # rs2))
     \<and> total_colonne (colonne (df_tranches (rs1 @ r # rs2)) annee)
         = Suc (total_colonne (colonne (df_tranches (rs1 @ rs2)) annee))
     \<and> total_colonne (colonne (df_tranches (rs1 @ r # rs2)) annee)
         = length (leves annee (rs1 @ r # rs2))"
proof -
  have l1: "leves annee (rs1 @ r # rs2) = leves annee rs1 @ r # leves annee rs2"
    using assms(4) by (rule leves_insert)
  have l2: "leves annee (rs1 @ rs2) = leves annee rs1 @ leves annee rs2"
    by (rule leves_append)
  have none: "pd_cut age_bins_edges age_bins_labels
           (fl_sub (Fin (of_int annee)) (annee_ref_col annee_ref r)) = None"
    using assms(3) by (rule age_of_unknown)
  have same: "colonne (table_age annee_ref (rs1 @ r # rs2)) annee
         = colonne (table_age annee_ref (rs1 @ rs2)) annee"
    unfolding colonne_table_age [OF assms(2)] l1 l2
    by (simp add: none value_counts_drop_None)
  have "total_colonne (colonne (table_age annee_ref (rs1 @ rs2)) annee)
          \<le> length (leves annee (rs1 @ rs2))"
    using assms(2) by (rule total_table_age_le)
  then have less: "total_colonne (colonne (table_age annee_ref (rs1 @ r # rs2)) annee)
         < length (leves annee (rs1 @ r # rs2))"
    by (simp add: same l1 l2)
  have t1: "total_colonne (colonne (df_tranches (rs1 @ r # rs2)) annee)
         = length (leves annee (rs1 @ r # rs2))"
    using total_df_tranches [OF assms(1,2)] by blast
  have "set (rs1 @ rs2) \<subseteq> set (rs1 @ r # rs2)" by auto
  then have t2: "total_colonne (colonne (df_tranches (rs1 @ rs2)) annee)
         = length (leves annee (rs1 @ rs2))"
    using total_df_tranches [OF assms(1,2)] by blast
  show ?thesis
    using none same less t1 t2 by (simp add: l1 l2)
qed

theorem unknown_reference_year_witness:
  "isna (annee_ref_col AnneeRCS (exemple_df ! 2))
   \<and> gt0 (montant 2021 (exemple_df ! 2))
   \<and> colonne (table_age AnneeRCS exemple_df) 2021
       = colonne (table_age AnneeRCS (take 2 exemple_df)) 2021
   \<and> total_colonne (colonne (table_age AnneeRCS exemple_df) 2021) < 2
   \<and> total_colonne (colonne (df_tranches exemple_df) 2021) = 2"
proof -
  obtain st where st: "stats arith_exact exemple_df = Inr st" using exemple_stats by blast
  have split: "exemple_df = take 2 exemple_df @ (exemple_df ! 2) # []"
    by (simp add: exemple_df_def)
  have y: "(2021::int) \<in> set annees_levee" by (simp add: annees_levee_def)
  have na: "isna (annee_ref_col AnneeRCS (exemple_df ! 2))" by (simp add: exemple_df_def)
  have pos: "gt0 (montant 2021 (exemple_df ! 2))"
    by (simp add: exemple_df_def montant_def gt0_def)
  have st': "stats arith_exact (take 2 exemple_df @ (exemple_df ! 2) # []) = Inr st"
    using st split by simp
  note inst = unknown_reference_year [OF st' y na pos, folded split, unfolded append_Nil2]
  from inst have a: "colonne (table_age AnneeRCS exemple_df) 2021
       = colonne (table_age AnneeRCS (take 2 exemple_df)) 2021" by blast
  from inst have b: "total_colonne (colonne (table_age AnneeRCS exemple_df) 2021)
       < length (leves 2021 exemple_df)" by blast
  from inst have c: "total_colonne (colonne (df_tranches exemple_df) 2021)
       = length (leves 2021 exemple_df)" by blast
  have len: "length (leves 2021 exemple_df) = 2" by (simp add: exemple_leves_2021)
  show ?thesis using na pos a b c unfolding len by blast
qed

section \<open>Percentages\<close>

lemma series_sum_Fin: "series_sum (map Fin xs) = Fin (sum_list xs)"
  by (induction xs) (simp_all add: series_sum_def notnull_def)

lemma count_le_total: "(l, c) \<in> set col \<Longrightarrow> c \<le> total_colonne col"
  unfolding total_colonne_def by (induction col) auto

lemma total_zero_all_zero:
  "total_colonne col = 0 \<Longrightarrow> (l, c) \<in> set col \<Longrightarrow> c = 0"
  using count_le_total [of l c col] by simp

lemma pct_colonne_nonzero:
  "total_colonne col \<noteq> 0 \<Longrightarrow>
   pct_colonne col = map (\<lambda>(l, c). (l, Fin (real c / real (total_colonne col) * 100))) col"
  by (simp add: pct_colonne_def div_count_def fillna0_def)

lemma pct_colonne_zero:
  assumes "total_colonne col = 0"
  shows "pct_colonne col = map (\<lambda>(l, c). (l, Fin 0)) col"
proof -
  have "mul100 (fillna0 (div_count c (total_colonne col))) = Fin 0" if "(l, c) \<in> set col" for l c
    using total_zero_all_zero [OF assms that] assms by (simp add: div_count_def fillna0_def)
  then show ?thesis unfolding pct_colonne_def by (intro map_cong) auto
qed

lemma sum_scaled:
  "sum_list (map (\<lambda>p. real (snd p) * k) col) = sum_list (map (\<lambda>p. real (snd p)) col) * k"
  for col :: "(string \<times> nat) list"
  by (induction col) (simp_all add: algebra_simps)

lemma sum_pct:
  assumes "total_colonne col \<noteq> 0"
  shows "sum_list (map (\<lambda>(l, c). real c / real (total_colonne col) * 100) col) = 100"
proof -
  let ?t = "real (total_colonne col)"
  have "sum_list (map (\<lambda>(l, c). real c / ?t * 100) col)
        = sum_list (map (\<lambda>p. real (snd p) * (100 / ?t)) col)"
    by (intro arg_cong [where f = sum_list] map_cong) (auto simp: field_simps)
  also have "\<dots> = sum_list (map (\<lambda>p. real (snd p)) col) * (100 / ?t)"
    by (rule sum_scaled)
  also have "sum_list (map (\<lambda>p. real (snd p)) col) = ?t"
    by (simp add: total_colonne_def comp_def flip: sum_list_of_nat)
  finally show ?thesis using assms by simp
qed

lemma colonne_df_tranches_pct:
  "colonne (df_tranches_pct tab) annee = pct_colonne (colonne tab annee)"
proof -
  have "map_of (map (\<lambda>(a, col). (a, pct_colonne col)) tab) annee
        = map_option pct_colonne (map_of tab annee)"
    by (induction tab) auto
  then show ?thesis
    by (simp add: colonne_def df_tranches_pct_def pct_colonne_def split: option.splits)
qed


text \<open>
  C3. The percentage table has, for each year, the percentages of that year's column of
  counts. A column whose total is 0 has every percentage equal to 0. A column whose total
  is not 0 has the entries count / total * 100, each between 0 and 100, and they sum to 100
  (exactly, finite floats being idealised as reals).
\<close>

theorem percentage_view:
  "colonne (df_tranches_pct tab) annee = pct_colonne (colonne tab annee)
   \<and> map fst (pct_colonne col) = map fst col
   \<and> (total_colonne col = 0 \<longrightarrow> (\<forall>p \<in> set (pct_colonne col). snd p = Fin 0))
   \<and> (total_colonne col \<noteq> 0 \<longrightarrow>
        pct_colonne col = map (\<lambda>(l, c). (l, Fin (real c / real (total_colonne col) * 100))) col
        \<and> series_sum (map snd (pct_colonne col)) = Fin 100
        \<and> (\<forall>p \<in> set (pct_colonne col). \<exists>x. snd p = Fin x \<and> 0 \<le> x \<and> x \<le> 100))"
proof -
  have labels: "map fst (pct_colonne col) = map fst col"
    by (simp add: pct_colonne_def comp_def case_prod_unfold)
  have zero: "\<forall>p \<in> set (pct_colonne col). snd p = Fin 0" if "total_colonne col = 0"
    by (auto simp: pct_colonne_zero [OF that])
  have nonzero: "pct_colonne col = map (\<lambda>(l, c). (l, Fin (real c / real (total_colonne col) * 100))) col
        \<and> series_sum (map snd (pct_colonne col)) = Fin 100
        \<and> (\<forall>p \<in> set (pct_colonne col). \<exists>x. snd p = Fin x \<and> 0 \<le> x \<and> x \<le> 100)"
    if t: "total_colonne col \<noteq> 0"
  proof -
    let ?t = "real (total_colonne col)"
    have eq: "pct_colonne col = map (\<lambda>(l, c). (l, Fin (real c / ?t * 100))) col"
      using t by (rule pct_colonne_nonzero)
    have "map snd (pct_colonne col) = map Fin (map (\<lambda>(l, c). real c / ?t * 100) col)"
      unfolding eq by (simp add: comp_def case_prod_unfold)
    then have sum: "series_sum (map snd (pct_colonne col)) = Fin 100"
      by (simp only: series_sum_Fin sum_pct [OF t])
    have "\<exists>x. snd p = Fin x \<and> 0 \<le> x \<and> x \<le> 100" if "p \<in> set (pct_colonne col)" for p
    proof -
      from that obtain l c where lc: "(l, c) \<in> set col" and p: "p = (l, Fin (real c / ?t * 100))"
        unfolding eq by auto
      have "c \<le> total_colonne col" using lc by (rule count_le_total)
      then have "real c \<le> ?t" by simp
      moreover have "0 < ?t" using t by simp
      ultimately have "real c / ?t \<le> 1" by (simp add: divide_le_eq_1)
      then have "real c / ?t * 100 \<le> 1 * 100" by (intro mult_right_mono) simp_all
      then have "real c / ?t * 100 \<le> 100" by (simp only: mult_1)
      moreover have "0 \<le> real c / ?t * 100" by simp
      ultimately show ?thesis using p by simp
    qed
    then show ?thesis using eq sum by blast
  qed
  show ?thesis using colonne_df_tranches_pct labels zero nonzero by blast
qed

theorem percentage_view_witness:
  "total_colonne [(''<500k'', 1), (''500k-1M'', 3)] = 4
   \<and> series_sum (map snd (pct_colonne [(''<500k'', 1), (''500k-1M'', 3)])) = Fin 100
   \<and> pct_colonne [(''<500k'', 1), (''500k-1M'', 3)] = [(''<500k'', Fin 25), (''500k-1M'', Fin 75)]
   \<and> total_colonne [(''<500k'', 0), (''500k-1M'', 0)] = 0
   \<and> snd (pct_colonne [(''<500k'', 0), (''500k-1M'', 0)] ! 1) = Fin 0"
proof -
  let ?c = "[(''<500k'', 1::nat), (''500k-1M'', 3)]"
  let ?z = "[(''<500k'', 0::nat), (''500k-1M'', 0)]"
  have t: "total_colonne ?c = 4" and tz: "total_colonne ?z = 0"
    by (simp_all add: total_colonne_def)
  have nz: "total_colonne ?c \<noteq> 0" using t by simp
  from percentage_view [of "[]" 0 ?c] nz
  have a: "series_sum (map snd (pct_colonne ?c)) = Fin 100"
    and b: "pct_colonne ?c = map (\<lambda>(l, c). (l, Fin (real c / real (total_colonne ?c) * 100))) ?c"
    by blast+
  have b': "pct_colonne ?c = [(''<500k'', Fin 25), (''500k-1M'', Fin 75)]"
    unfolding b t by simp
  from percentage_view [of "[]" 0 ?z] tz
  have allz: "\<forall>p \<in> set (pct_colonne ?z). snd p = Fin 0"
    and lz: "map fst (pct_colonne ?z) = map fst ?z"
    by blast+
  from lz have "length (pct_colonne ?z) = 2" using length_map [of fst "pct_colonne ?z"] by simp
  then have "pct_colonne ?z ! 1 \<in> set (pct_colonne ?z)" by simp
  then have c: "snd (pct_colonne ?z ! 1) = Fin 0" using allz by blast
  show ?thesis using t tz a b' c by blast
qed

section \<open>Pre-processing\<close>

lemma bind_r_Inl: "bind_r m f = Inl e \<Longrightarrow> m = Inl e \<or> (\<exists>x. m = Inr x \<and> f x = Inl e)"
  by (cases m) (simp_all add: bind_r_def)

lemma coerce_flag_error: "coerce_flag parse c = Inl e \<Longrightarrow> e = IntCastingNaNError"
  unfolding coerce_flag_def by (cases "fillna0 (to_numeric parse c)") simp_all

lemma pretraitement_row_error:
  "pretraitement_row parse r = Inl e \<Longrightarrow> e = IntCastingNaNError"
  unfolding pretraitement_row_def
  by (auto dest!: bind_r_Inl dest: coerce_flag_error)

lemma map_result_Inl:
  "map_result f xs = Inl e \<Longrightarrow> \<exists>x \<in> set xs. f x = Inl e"
proof (induction xs)
  case Nil
  then show ?case by simp
next
  case (Cons a xs)
  from Cons.prems have "bind_r (f a) (\<lambda>y. bind_r (map_result f xs) (\<lambda>ys. Inr (y # ys))) = Inl e"
    by simp
  then consider "f a = Inl e"
    | y where "f a = Inr y" "bind_r (map_result f xs) (\<lambda>ys. Inr (y # ys)) = Inl e"
    using bind_r_Inl by fastforce
  then show ?case
  proof cases
    case 1
    then show ?thesis by simp
  next
    case 2
    then have "map_result f xs = Inl e" using bind_r_Inl by fastforce
    then show ?thesis using Cons.IH by auto
  qed
qed

lemma map_result_nth:
  "map_result f xs = Inr ys \<Longrightarrow>
   length ys = length xs \<and> (\<forall>i < length xs. f (xs ! i) = Inr (ys ! i))"
proof (induction xs arbitrary: ys)
  case Nil
  then show ?case by simp
next
  case (Cons a xs)
  from Cons.prems have "bind_r (f a) (\<lambda>y. bind_r (map_result f xs) (\<lambda>zs. Inr (y # zs))) = Inr ys"
    by simp
  then obtain y where y: "f a = Inr y"
    and rest: "bind_r (map_result f xs) (\<lambda>zs. Inr (y # zs)) = Inr ys"
    using bind_r_Inr by fastforce
  from rest obtain zs where zs: "map_result f xs = Inr zs" and ys: "ys = y # zs"
    using bind_r_Inr [OF rest] by auto
  from Cons.IH [OF zs] have len: "length zs = length xs"
    and nth: "\<forall>i < length xs. f (xs ! i) = Inr (zs ! i)" by simp_all
  show ?case
  proof (intro conjI allI impI)
    show "length ys = length (a # xs)" using len ys by simp
    fix i assume "i < length (a # xs)"
    then show "f ((a # xs) ! i) = Inr (ys ! i)"
      using y nth ys by (cases i) simp_all
  qed
qed

lemma pretraitements_not_missing:
  "missing_cols df = [] \<Longrightarrow> pretraitements parse df \<noteq> Inl (MissingColumns ms)"
proof
  assume m: "missing_cols df = []" and e: "pretraitements parse df = Inl (MissingColumns ms)"
  then have "map_result (pretraitement_row parse) (rows df) = Inl (MissingColumns ms)"
    by (simp add: pretraitements_def)
  then obtain r where "pretraitement_row parse r = Inl (MissingColumns ms)"
    using map_result_Inl by blast
  then show False using pretraitement_row_error by blast
qed

text \<open>
  C6. When a required column is absent the pre-processing fails with the list of all the
  missing required columns, in the order of the required list, whatever the rows hold (no
  cell is coerced, nothing is aggregated), and the script fails with the same error. When
  no required column is missing, this failure does not occur.
\<close>

theorem missing_columns_fail_fast:
  "set (missing_cols df) = {c \<in> set required_columns. c \<notin> set (columns df)}
   \<and> (missing_cols df \<noteq> [] \<longrightarrow>
        pretraitements parse df = Inl (MissingColumns (missing_cols df))
        \<and> pretraitements parse' (df\<lparr>rows := rs\<rparr>) = Inl (MissingColumns (missing_cols df))
        \<and> app ar parse annee_ref choix_theme choix_exoendo df
             = Inl (MissingColumns (missing_cols df)))
   \<and> (pretraitements parse df = Inl (MissingColumns ms) \<longrightarrow> ms = missing_cols df \<and> ms \<noteq> [])
   \<and> (set required_columns \<subseteq> set (columns df) \<longrightarrow>
        missing_cols df = [] \<and> pretraitements parse df \<noteq> Inl (MissingColumns ms))"
proof -
  have a: "set (missing_cols df) = {c \<in> set required_columns. c \<notin> set (columns df)}"
    by (auto simp: missing_cols_def)
  have same: "missing_cols (df\<lparr>rows := rs\<rparr>) = missing_cols df"
    by (simp add: missing_cols_def)
  have b: "pretraitements parse df = Inl (MissingColumns (missing_cols df))
        \<and> pretraitements parse' (df\<lparr>rows := rs\<rparr>) = Inl (MissingColumns (missing_cols df))
        \<and> app ar parse annee_ref choix_theme choix_exoendo df
             = Inl (MissingColumns (missing_cols df))"
    if "missing_cols df \<noteq> []"
    using that by (simp add: pretraitements_def same app_def bind_r_def)
  have c: "ms = missing_cols df \<and> ms \<noteq> []"
    if "pretraitements parse df = Inl (MissingColumns ms)"
  proof (cases "missing_cols df = []")
    case True
    then show ?thesis using that pretraitements_not_missing by blast
  next
    case False
    then show ?thesis using that by (simp add: pretraitements_def)
  qed
  have d: "missing_cols df = [] \<and> pretraitements parse df \<noteq> Inl (MissingColumns ms)"
    if "set required_columns \<subseteq> set (columns df)"
  proof -
    have "missing_cols df = []" using that by (auto simp: missing_cols_def filter_empty_conv)
    then show ?thesis using pretraitements_not_missing by blast
  qed
  show ?thesis using a b c d by blast
qed

theorem missing_columns_fail_fast_witness:
  "missing_cols (exemple_raw\<lparr>columns := drop 2 required_columns\<rparr>)
     = [col_annee_rcs, col_annee_incub]
   \<and> pretraitements exemple_parse (exemple_raw\<lparr>columns := drop 2 required_columns\<rparr>)
     = Inl (MissingColumns [col_annee_rcs, col_annee_incub])
   \<and> set required_columns \<subseteq> set (columns exemple_raw)
   \<and> pretraitements exemple_parse exemple_raw \<noteq> Inl (MissingColumns [])"
proof -
  let ?d = "exemple_raw\<lparr>columns := drop 2 required_columns\<rparr>"
  have m: "missing_cols ?d = [col_annee_rcs, col_annee_incub]"
    by (simp add: missing_cols_def required_columns_def col_defs)
  then have ne: "missing_cols ?d \<noteq> []" by simp
  have sub: "set required_columns \<subseteq> set (columns exemple_raw)"
    by (simp add: exemple_raw_def)
  from missing_columns_fail_fast [where df = ?d and parse = exemple_parse] ne
  have "pretraitements exemple_parse ?d = Inl (MissingColumns (missing_cols ?d))" by blast
  moreover from missing_columns_fail_fast
    [where df = exemple_raw and parse = exemple_parse and ms = "[]"] sub
  have "pretraitements exemple_parse exemple_raw \<noteq> Inl (MissingColumns [])" by blast
  ultimately show ?thesis using m sub by simp
qed

section \<open>Coercion of the cells\<close>

lemma trunc_towards_zero: "\<bar>real_of_int (trunc v)\<bar> \<le> \<bar>v\<bar> \<and> \<bar>v - real_of_int (trunc v)\<bar> < 1"
  unfolding trunc_def by (auto; linarith)

lemma pretraitement_row_fields:
  assumes "pretraitement_row parse r = Inr p"
  shows "annee_rcs p = coerce_annee parse (r col_annee_rcs)
    \<and> annee_incub p = coerce_annee parse (r col_annee_incub)
    \<and> annee_primo p = coerce_annee parse (r col_annee_primo)
    \<and> montant_2021 p = coerce_montant parse (r ''Montant 2021 (si >100K)'')
    \<and> montant_2022 p = coerce_montant parse (r ''Montant 2022 (si >100K)'')
    \<and> montant_2023 p = coerce_montant parse (r ''Montant 2023 (si >100K)'')
    \<and> montant_2024 p = coerce_montant parse (r ''Montant 2024 (si >100K)'')
    \<and> coerce_flag parse (r col_indus) = Inr (indus_bioeco p)
    \<and> coerce_flag parse (r col_numerique) = Inr (numerique p)
    \<and> coerce_flag parse (r col_sante) = Inr (sante p)
    \<and> coerce_flag parse (r ''EXOGENE'') = Inr (exogene p)
    \<and> coerce_flag parse (r ''ENDOGENE'') = Inr (endogene p)
    \<and> coerce_flag parse (r col_deeptech) = Inr (deeptech p)
    \<and> coerce_flag parse (r col_lien) = Inr (lien_recherche p)"
  using assms unfolding pretraitement_row_def
  by (auto dest!: bind_r_Inr)


lemma isna_fl_sub_right: "isna b \<Longrightarrow> isna (fl_sub a b)"
  by (cases a) (simp_all add: isna_iff fl_sub_def)

lemma zero_not_leve: "montant annee p = Fin 0 \<Longrightarrow> p \<notin> set (leves annee df)"
  by (simp add: leves_def gt0_def)

lemma cell_rules:
  "coerce_annee parse (Num x) = x
   \<and> (parse s = Some x \<longrightarrow> coerce_annee parse (Text s) = x)
   \<and> (parse s = None \<longrightarrow> coerce_annee parse (Text s) = NaN)
   \<and> coerce_montant parse (Num x) = (if isna x then Fin 0 else x)
   \<and> (parse s = Some x \<longrightarrow> coerce_montant parse (Text s) = (if isna x then Fin 0 else x))
   \<and> (parse s = None \<longrightarrow> coerce_montant parse (Text s) = Fin 0)
   \<and> coerce_flag parse (Num NaN) = Inr 0
   \<and> coerce_flag parse (Num PInf) = Inl IntCastingNaNError
   \<and> coerce_flag parse (Num NInf) = Inl IntCastingNaNError
   \<and> (parse s = Some x \<longrightarrow> coerce_flag parse (Text s) = coerce_flag parse (Num x))
   \<and> (parse s = None \<longrightarrow> coerce_flag parse (Text s) = Inr 0)"
  by (simp add: coerce_annee_def coerce_montant_def coerce_flag_def to_numeric_def fillna0_def
      trunc_def int64_cast_def)

lemma flag_cast:
  "(- 9223372036854775808 \<le> trunc v \<and> trunc v < 9223372036854775808 \<longrightarrow>
      coerce_flag parse (Num (Fin v)) = Inr (trunc v))
   \<and> (trunc v < - 9223372036854775808 \<or> 9223372036854775808 \<le> trunc v \<longrightarrow>
      coerce_flag parse (Num (Fin v)) = Inr (- 9223372036854775808))"
  by (auto simp: coerce_flag_def to_numeric_def fillna0_def int64_cast_def)

lemma trunc_big: "trunc 9223372036854775808 = 9223372036854775808"
  by (simp add: trunc_def)

text \<open>
  C7, as stated, fails for the flag columns: a flag cell holding 9223372036854775808, which
  is 2 to the power 63, is not truncated to that integer; the int64 cast stores
  -9223372036854775808. A flag cell holding an infinity makes the cast raise.
\<close>

theorem flag_truncation_counterexample:
  "trunc 9223372036854775808 = 9223372036854775808
   \<and> coerce_flag exemple_parse (Num (Fin 9223372036854775808)) = Inr (- 9223372036854775808)
   \<and> coerce_flag exemple_parse (Num (Fin 9223372036854775808))
       \<noteq> Inr (trunc 9223372036854775808)
   \<and> coerce_flag exemple_parse (Num PInf) = Inl IntCastingNaNError
   \<and> pretraitements exemple_parse
        \<lparr> columns = required_columns,
          rows = [(exemple_rows ! 0) (col_numerique := Num (Fin 9223372036854775808))] \<rparr>
       = Inr [(exemple_df ! 0) \<lparr> numerique := - 9223372036854775808 \<rparr>]"
proof -
  have a: "coerce_flag exemple_parse (Num (Fin 9223372036854775808))
             = Inr (- 9223372036854775808)"
    by (simp add: coerce_flag_def to_numeric_def fillna0_def int64_cast_def trunc_big)
  have b: "coerce_flag exemple_parse (Num PInf) = Inl IntCastingNaNError"
    by (simp add: coerce_flag_def to_numeric_def fillna0_def)
  have m: "missing_cols \<lparr> columns = required_columns,
          rows = [(exemple_rows ! 0) (col_numerique := Num (Fin 9223372036854775808))] \<rparr> = []"
    by (simp add: missing_cols_def)
  have c: "pretraitements exemple_parse
        \<lparr> columns = required_columns,
          rows = [(exemple_rows ! 0) (col_numerique := Num (Fin 9223372036854775808))] \<rparr>
       = Inr [(exemple_df ! 0) \<lparr> numerique := - 9223372036854775808 \<rparr>]"
    by (simp add: pretraitements_def m)
       (simp add: exemple_rows_def exemple_df_def pretraitement_row_def
          coerce_flag_def coerce_annee_def coerce_montant_def to_numeric_def fillna0_def
          exemple_parse_def bind_r_def trunc_def int64_cast_def col_defs)
  show ?thesis using a b c by (simp add: trunc_big)
qed

text \<open>
  C7, amended. Every cell of a year column is made numeric: a number is kept, a readable
  text becomes the number read, an unreadable one becomes NaN, not 0. Every cell of an
  amount column is made numeric in the same way and then NaN becomes 0, so that an
  unreadable or missing amount is 0. Every cell of a flag column is made numeric in the same
  way, NaN becomes 0, and then the value is cast to int64: a finite value whose truncation
  towards zero is in the int64 range becomes that integer, a finite value outside that
  range becomes -9223372036854775808, and an infinity raises. Each field of each
  pre-processed row is the coercion of the cell of its column. A row whose reference year is
  NaN gets a NaN age and no age bucket, and its gap to the first funding round is NaN; a row
  whose amount of a year is 0 is not among the funding events of that year.
\<close>

theorem coercion_rules:
  assumes "pretraitements parse df = Inr out" and "i < length (rows df)"
  shows "length out = length (rows df)
    \<and> annee_rcs (out ! i) = coerce_annee parse ((rows df ! i) col_annee_rcs)
    \<and> annee_incub (out ! i) = coerce_annee parse ((rows df ! i) col_annee_incub)
    \<and> annee_primo (out ! i) = coerce_annee parse ((rows df ! i) col_annee_primo)
    \<and> montant_2021 (out ! i) = coerce_montant parse ((rows df ! i) ''Montant 2021 (si >100K)'')
    \<and> montant_2022 (out ! i) = coerce_montant parse ((rows df ! i) ''Montant 2022 (si >100K)'')
    \<and> montant_2023 (out ! i) = coerce_montant parse ((rows df ! i) ''Montant 2023 (si >100K)'')
    \<and> montant_2024 (out ! i) = coerce_montant parse ((rows df ! i) ''Montant 2024 (si >100K)'')
    \<and> coerce_flag parse ((rows df ! i) col_indus) = Inr (indus_bioeco (out ! i))
    \<and> coerce_flag parse ((rows df ! i) col_numerique) = Inr (numerique (out ! i))
    \<and> coerce_flag parse ((rows df ! i) col_sante) = Inr (sante (out ! i))
    \<and> coerce_flag parse ((rows df ! i) ''EXOGENE'') = Inr (exogene (out ! i))
    \<and> coerce_flag parse ((rows df ! i) ''ENDOGENE'') = Inr (endogene (out ! i))
    \<and> coerce_flag parse ((rows df ! i) col_deeptech) = Inr (deeptech (out ! i))
    \<and> coerce_flag parse ((rows df ! i) col_lien) = Inr (lien_recherche (out ! i))
    \<and> coerce_annee parse (Num x) = x
    \<and> (parse s = Some x \<longrightarrow> coerce_annee parse (Text s) = x)
    \<and> (parse s = None \<longrightarrow> coerce_annee parse (Text s) = NaN \<and> coerce_annee parse (Text s) \<noteq> Fin 0)
    \<and> coerce_montant parse (Num x) = (if isna x then Fin 0 else x)
    \<and> (parse s = Some x \<longrightarrow> coerce_montant parse (Text s) = (if isna x then Fin 0 else x))
    \<and> (parse s = None \<longrightarrow> coerce_montant parse (Text s) = Fin 0)
    \<and> coerce_flag parse (Num NaN) = Inr 0
    \<and> coerce_flag parse (Num PInf) = Inl IntCastingNaNError
    \<and> coerce_flag parse (Num NInf) = Inl IntCastingNaNError
    \<and> (- 9223372036854775808 \<le> trunc v \<and> trunc v < 9223372036854775808 \<longrightarrow>
          coerce_flag parse (Num (Fin v)) = Inr (trunc v))
    \<and> (trunc v < - 9223372036854775808 \<or> 9223372036854775808 \<le> trunc v \<longrightarrow>
          coerce_flag parse (Num (Fin v)) = Inr (- 9223372036854775808))
    \<and> (parse s = Some x \<longrightarrow> coerce_flag parse (Text s) = coerce_flag parse (Num x))
    \<and> (parse s = None \<longrightarrow> coerce_flag parse (Text s) = Inr 0)
    \<and> \<bar>real_of_int (trunc v)\<bar> \<le> \<bar>v\<bar> \<and> \<bar>v - real_of_int (trunc v)\<bar> < 1
    \<and> (isna (annee_ref_col annee_ref (out ! i)) \<longrightarrow>
          isna (fl_sub (Fin (of_int annee)) (annee_ref_col annee_ref (out ! i)))
          \<and> pd_cut age_bins_edges age_bins_labels
                (fl_sub (Fin (of_int annee)) (annee_ref_col annee_ref (out ! i))) = None)
    \<and> (isna (annee_rcs (out ! i)) \<longrightarrow> isna (fl_sub (annee_primo (out ! i)) (annee_rcs (out ! i))))
    \<and> (montant annee (out ! i) = Fin 0 \<longrightarrow> out ! i \<notin> set (leves annee out))"
proof -
  from assms(1) have mr: "map_result (pretraitement_row parse) (rows df) = Inr out"
    by (simp add: pretraitements_def split: if_splits)
  from map_result_nth [OF mr] assms(2)
  have len: "length out = length (rows df)"
    and row: "pretraitement_row parse (rows df ! i) = Inr (out ! i)" by simp_all
  note f = pretraitement_row_fields [OF row]
  note c = cell_rules [of parse x s]
  note k = flag_cast [of v parse]
  have t: "\<bar>real_of_int (trunc v)\<bar> \<le> \<bar>v\<bar> \<and> \<bar>v - real_of_int (trunc v)\<bar> < 1"
    by (rule trunc_towards_zero)
  have u: "isna (annee_ref_col annee_ref (out ! i)) \<longrightarrow>
          isna (fl_sub (Fin (of_int annee)) (annee_ref_col annee_ref (out ! i)))
          \<and> pd_cut age_bins_edges age_bins_labels
                (fl_sub (Fin (of_int annee)) (annee_ref_col annee_ref (out ! i))) = None"
    using age_of_unknown isna_fl_sub_right by blast
  have g: "isna (annee_rcs (out ! i)) \<longrightarrow> isna (fl_sub (annee_primo (out ! i)) (annee_rcs (out ! i)))"
    using isna_fl_sub_right by blast
  have z: "montant annee (out ! i) = Fin 0 \<longrightarrow> out ! i \<notin> set (leves annee out)"
    using zero_not_leve by blast
  have ne: "parse s = None \<longrightarrow> coerce_annee parse (Text s) = NaN \<and> coerce_annee parse (Text s) \<noteq> Fin 0"
    using c by simp
  show ?thesis
    using len f c k t u g z ne by (intro conjI) blast+
qed

theorem coercion_rules_witness:
  "pretraitements exemple_parse exemple_raw = Inr exemple_df
   \<and> (1::nat) < length (rows exemple_raw)
   \<and> exemple_parse ''inconnu'' = None
   \<and> exemple_parse ''1'' = Some (Fin 1)
   \<and> annee_rcs (exemple_df ! 1) = NaN
   \<and> montant_2021 (exemple_df ! 1) = Fin 0
   \<and> exemple_df ! 1 \<notin> set (leves 2021 exemple_df)
   \<and> pd_cut age_bins_edges age_bins_labels
        (fl_sub (Fin (of_int 2022)) (annee_ref_col AnneeRCS (exemple_df ! 1))) = None
   \<and> coerce_montant exemple_parse (Text ''1'') = Fin 1
   \<and> coerce_flag exemple_parse (Text ''1'') = Inr 1"
proof -
  have i: "(1::nat) < length (rows exemple_raw)"
    by (simp add: exemple_raw_def exemple_rows_def)
  have p: "exemple_parse ''inconnu'' = None" by (simp add: exemple_parse_def)
  have q: "exemple_parse ''1'' = Some (Fin 1)" by (simp add: exemple_parse_def)
  have cell: "(rows exemple_raw ! 1) col_annee_rcs = Text ''inconnu''"
    by (simp add: exemple_raw_def exemple_rows_def col_defs)
  have m: "montant 2021 (exemple_df ! 1) = Fin 0"
    by (simp add: montant_def exemple_df_def)
  have tr: "trunc 1 = 1" by (simp add: trunc_def)
  note r = coercion_rules [OF exemple_pretraitements i,
      where s = "''inconnu''" and annee_ref = AnneeRCS and annee = 2021]
  note r' = coercion_rules [OF exemple_pretraitements i,
      where s = "''inconnu''" and annee_ref = AnneeRCS and annee = 2022]
  note r1 = coercion_rules [OF exemple_pretraitements i,
      where s = "''1''" and x = "Fin 1" and v = 1]
  from r have a: "annee_rcs (exemple_df ! 1) = coerce_annee exemple_parse ((rows exemple_raw ! 1) col_annee_rcs)"
    by blast
  from r p have b: "coerce_annee exemple_parse (Text ''inconnu'') = NaN" by blast
  from a b cell have na: "annee_rcs (exemple_df ! 1) = NaN" by simp
  from r m have c: "exemple_df ! 1 \<notin> set (leves 2021 exemple_df)" by blast
  have "isna (annee_ref_col AnneeRCS (exemple_df ! 1))" using na by simp
  with r' have d: "pd_cut age_bins_edges age_bins_labels
        (fl_sub (Fin (of_int 2022)) (annee_ref_col AnneeRCS (exemple_df ! 1))) = None" by blast
  have e: "montant_2021 (exemple_df ! 1) = Fin 0" using m by (simp add: montant_def)
  from r1 q have "coerce_montant exemple_parse (Text ''1'') = (if isna (Fin 1) then Fin 0 else Fin 1)"
    by blast
  then have f: "coerce_montant exemple_parse (Text ''1'') = Fin 1" by simp
  from r1 q have g1: "coerce_flag exemple_parse (Text ''1'') = coerce_flag exemple_parse (Num (Fin 1))"
    by blast
  have rg: "- 9223372036854775808 \<le> trunc 1 \<and> trunc 1 < 9223372036854775808" by (simp add: tr)
  from r1 rg have "coerce_flag exemple_parse (Num (Fin 1)) = Inr (trunc 1)" by blast
  with g1 tr have g: "coerce_flag exemple_parse (Text ''1'') = Inr 1" by simp
  show ?thesis using exemple_pretraitements i p q na e c d f g by blast
qed

section \<open>Summary statistics\<close>

lemma isna_fl_sub_left: "isna a \<Longrightarrow> isna (fl_sub a b)"
  by (simp add: isna_iff fl_sub_def)

lemma mean_col_all_na: "\<forall>x \<in> set xs. isna x \<Longrightarrow> mean_col ar xs = NaN"
proof -
  assume "\<forall>x \<in> set xs. isna x"
  then have "filter notnull xs = []" by (simp add: notnull_def filter_empty_conv)
  then show ?thesis by (simp add: mean_col_def)
qed

lemma mean_col_Nil: "mean_col ar [] = NaN"
  by (simp add: mean_col_def)

lemma stats_annee_empty:
  "leves annee df = [] \<Longrightarrow>
   stats_annee ar df annee
     = Inr \<lparr> nb_projets = 0, montant_total = 0, delai_moyen = Text ''N/A'' \<rparr>"
  by (simp add: stats_annee_def sum_col_def bind_r_def trunc_def)

lemma stats_annee_row:
  assumes "sum_col ar (map (montant annee) (leves annee df)) = Fin t"
  shows "stats_annee ar df annee =
     Inr \<lparr> nb_projets = length (leves annee df),
           montant_total = trunc t,
           delai_moyen =
             (let m = mean_col ar (map (\<lambda>r. fl_sub (annee_primo r) (annee_rcs r))
                                       (leves annee df))
              in if isna m then Text ''N/A'' else Num (arrondi2 ar m)) \<rparr>"
proof (cases "leves annee df = []")
  case True
  then have "t = 0" using assms by (simp add: sum_col_def)
  then show ?thesis using True by (simp add: stats_annee_empty mean_col_Nil trunc_def)
next
  case False
  then show ?thesis by (simp add: stats_annee_def Let_def assms bind_r_def)
qed

lemma stats_annee_sum:
  assumes "stats_annee ar df annee = Inr s"
  shows "\<exists>t. sum_col ar (map (montant annee) (leves annee df)) = Fin t"
proof -
  from assms obtain total
    where "py_int (sum_col ar (map (montant annee) (leves annee df))) = Inr total"
    unfolding stats_annee_def Let_def by (auto dest!: bind_r_Inr)
  then show ?thesis
    by (cases "sum_col ar (map (montant annee) (leves annee df))") simp_all
qed

lemma exemple_stats_2021:
  "stats_annee arith_exact exemple_df 2021
     = Inr \<lparr> nb_projets = 2, montant_total = 1350000, delai_moyen = Num (Fin 1) \<rparr>"
proof -
  have l: "leves 2021 exemple_df = [exemple_df ! 0, exemple_df ! 2]"
    by (rule exemple_leves_2021)
  have m: "map (montant 2021) [exemple_df ! 0, exemple_df ! 2] = [Fin 600000, Fin 750000]"
    by (simp add: exemple_df_def montant_def)
  have g: "map (\<lambda>r. fl_sub (annee_primo r) (annee_rcs r)) [exemple_df ! 0, exemple_df ! 2]
           = [Fin 1, NaN]"
    by (simp add: exemple_df_def fl_sub_def)
  have s: "sum_col arith_exact [Fin 600000, Fin 750000] = Fin 1350000"
    by (simp add: sum_col_def arith_exact_def series_sum_def notnull_def gt0_def)
  have mean: "mean_col arith_exact [Fin 1, NaN] = Fin 1"
    by (simp add: mean_col_def arith_exact_def series_mean_def series_sum_def notnull_def)
  have r: "rint 100 = 100" by (simp add: rint_def Let_def)
  have a: "arrondi2 arith_exact (Fin 1) = Fin 1" by (simp add: arith_exact_def r)
  show ?thesis
    unfolding stats_annee_def Let_def l m g s mean
    by (simp add: bind_r_def trunc_def a)
qed

lemma exemple_mean_of_amounts_2021:
  "spec_mean_of_amounts exemple_df 2021 = Num (Fin 675000)"
proof -
  have m: "map (montant 2021) [exemple_df ! 0, exemple_df ! 2] = [Fin 600000, Fin 750000]"
    by (simp add: exemple_df_def montant_def)
  have mean: "series_mean [Fin 600000, Fin 750000] = Fin 675000"
    by (simp add: series_mean_def series_sum_def notnull_def)
  show ?thesis
    unfolding spec_mean_of_amounts_def exemple_leves_2021 m mean by simp
qed

text \<open>
  C4, as stated, fails: on the example table the third column of the summary of 2021 is 1,
  the mean gap in years between incorporation and first funding round, and not 675000, the
  mean of the two qualifying amounts.
\<close>

theorem summary_mean_counterexample:
  "stats_annee arith_exact exemple_df 2021
     = Inr \<lparr> nb_projets = 2, montant_total = 1350000, delai_moyen = Num (Fin 1) \<rparr>
   \<and> spec_mean_of_amounts exemple_df 2021 = Num (Fin 675000)
   \<and> stats_annee arith_exact exemple_df 2021
     \<noteq> Inr \<lparr> nb_projets = 2, montant_total = 1350000,
              delai_moyen = spec_mean_of_amounts exemple_df 2021 \<rparr>"
  by (simp add: exemple_stats_2021 exemple_mean_of_amounts_2021)

text \<open>
  C4, amended. For every table, every year and every arithmetic of the platform:
  when no row has an amount greater than 0 the summary row is (0, 0, N/A) and nothing is
  raised; when the platform's sum of the amounts greater than 0 is finite the summary row
  is produced. A summary row that is produced holds the number of rows whose amount is
  greater than 0, all of these amounts being finite; the truncation to an integer of the
  platform's sum of these amounts, which is the truncation of their exact sum when the
  platform's sum is exact; and, as third column, not a mean of amounts but what
  \<^verbatim>\<open>round(x, 2)\<close> gives on the platform's mean of the gaps between first funding year and
  incorporation year over these rows, NaN gaps skipped, or the text N/A when that mean is
  NaN. The third column is N/A when the count is 0 and when no such row has both years
  known. When the platform's mean is the exact mean of the known gaps and the platform
  rounds it to a whole number of hundredths at most 0.005 away, the third column is such a
  rounding of the exact mean gap.
\<close>

theorem summary_statistics:
  "(leves annee df = [] \<longrightarrow>
      stats_annee ar df annee
        = Inr \<lparr> nb_projets = 0, montant_total = 0, delai_moyen = Text ''N/A'' \<rparr>)
   \<and> (sum_col ar (map (montant annee) (leves annee df)) = Fin t \<longrightarrow>
        (\<exists>s'. stats_annee ar df annee = Inr s'))
   \<and> (stats_annee ar df annee = Inr s \<longrightarrow>
        nb_projets s = length (leves annee df)
        \<and> (\<forall>r \<in> set (leves annee df). \<exists>a. montant annee r = Fin a \<and> 0 < a)
        \<and> (\<exists>t'. sum_col ar (map (montant annee) (leves annee df)) = Fin t'
                \<and> montant_total s = trunc t')
        \<and> (sum_col ar (map (montant annee) (leves annee df))
              = Fin (\<Sum>r\<leftarrow>leves annee df. valeur (montant annee r)) \<longrightarrow>
            montant_total s = trunc (\<Sum>r\<leftarrow>leves annee df. valeur (montant annee r)))
        \<and> delai_moyen s =
            (let m = mean_col ar (map (\<lambda>r. fl_sub (annee_primo r) (annee_rcs r))
                                     (leves annee df))
             in if isna m then Text ''N/A'' else Num (arrondi2 ar m))
        \<and> (nb_projets s = 0 \<longrightarrow> delai_moyen s = Text ''N/A'')
        \<and> ((\<forall>r \<in> set (leves annee df). isna (annee_rcs r) \<or> isna (annee_primo r)) \<longrightarrow>
             delai_moyen s = Text ''N/A'')
        \<and> (mean_col ar (map (\<lambda>r. fl_sub (annee_primo r) (annee_rcs r)) (leves annee df))
              = Fin mu
            \<and> series_mean (map (\<lambda>r. fl_sub (annee_primo r) (annee_rcs r)) (leves annee df))
              = Fin mu
            \<and> au_centieme mu (arrondi2 ar (Fin mu)) \<longrightarrow>
            (\<exists>d. delai_moyen s = Num d \<and> au_centieme mu d)))"
proof -
  let ?gaps = "map (\<lambda>r. fl_sub (annee_primo r) (annee_rcs r)) (leves annee df)"
  let ?amounts = "map (montant annee) (leves annee df)"
  have a: "stats_annee ar df annee
        = Inr \<lparr> nb_projets = 0, montant_total = 0, delai_moyen = Text ''N/A'' \<rparr>"
    if "leves annee df = []"
    using that by (rule stats_annee_empty)
  have b: "\<exists>s'. stats_annee ar df annee = Inr s'" if "sum_col ar ?amounts = Fin t"
    using stats_annee_row [OF that] by blast
  have c: "nb_projets s = length (leves annee df)
        \<and> (\<forall>r \<in> set (leves annee df). \<exists>a. montant annee r = Fin a \<and> 0 < a)
        \<and> (\<exists>t'. sum_col ar ?amounts = Fin t' \<and> montant_total s = trunc t')
        \<and> (sum_col ar ?amounts = Fin (\<Sum>r\<leftarrow>leves annee df. valeur (montant annee r)) \<longrightarrow>
            montant_total s = trunc (\<Sum>r\<leftarrow>leves annee df. valeur (montant annee r)))
        \<and> delai_moyen s = (let m = mean_col ar ?gaps
                            in if isna m then Text ''N/A'' else Num (arrondi2 ar m))
        \<and> (nb_projets s = 0 \<longrightarrow> delai_moyen s = Text ''N/A'')
        \<and> ((\<forall>r \<in> set (leves annee df). isna (annee_rcs r) \<or> isna (annee_primo r)) \<longrightarrow>
             delai_moyen s = Text ''N/A'')
        \<and> (mean_col ar ?gaps = Fin mu \<and> series_mean ?gaps = Fin mu
            \<and> au_centieme mu (arrondi2 ar (Fin mu)) \<longrightarrow>
            (\<exists>d. delai_moyen s = Num d \<and> au_centieme mu d))"
    if ok: "stats_annee ar df annee = Inr s"
  proof -
    obtain t' where t': "sum_col ar ?amounts = Fin t'"
      using stats_annee_sum [OF ok] by blast
    note v = stats_annee_row [OF t']
    from ok v have s: "s = \<lparr> nb_projets = length (leves annee df),
           montant_total = trunc t',
           delai_moyen = (let m = mean_col ar ?gaps
                          in if isna m then Text ''N/A'' else Num (arrondi2 ar m)) \<rparr>"
      by simp
    have nb: "nb_projets s = length (leves annee df)" by (subst s) simp
    have tot: "montant_total s = trunc t'" by (subst s) simp
    have del: "delai_moyen s = (let m = mean_col ar ?gaps
                                in if isna m then Text ''N/A'' else Num (arrondi2 ar m))"
      by (subst s) simp
    have fin: "\<forall>r \<in> set (leves annee df). \<exists>a. montant annee r = Fin a \<and> 0 < a"
      using stats_annee_finite [OF ok] by blast
    have exact: "montant_total s = trunc (\<Sum>r\<leftarrow>leves annee df. valeur (montant annee r))"
      if "sum_col ar ?amounts = Fin (\<Sum>r\<leftarrow>leves annee df. valeur (montant annee r))"
      using that t' tot by simp
    have zero: "delai_moyen s = Text ''N/A''" if "nb_projets s = 0"
    proof -
      from that nb have "leves annee df = []" by simp
      then show ?thesis using a ok by simp
    qed
    have unknown: "delai_moyen s = Text ''N/A''"
      if "\<forall>r \<in> set (leves annee df). isna (annee_rcs r) \<or> isna (annee_primo r)"
    proof -
      have "\<forall>x \<in> set ?gaps. isna x"
        using that isna_fl_sub_left isna_fl_sub_right by auto
      then have "mean_col ar ?gaps = NaN" by (rule mean_col_all_na)
      then show ?thesis by (simp add: del)
    qed
    have rounded: "\<exists>d. delai_moyen s = Num d \<and> au_centieme mu d"
      if "mean_col ar ?gaps = Fin mu \<and> series_mean ?gaps = Fin mu
            \<and> au_centieme mu (arrondi2 ar (Fin mu))"
      using that by (simp add: del)
    show ?thesis using nb fin t' tot exact del zero unknown rounded by blast
  qed
  show ?thesis using a b c by blast
qed

theorem summary_statistics_witness:
  "leves 2023 exemple_df = []
   \<and> stats_annee arith_exact exemple_df 2023
       = Inr \<lparr> nb_projets = 0, montant_total = 0, delai_moyen = Text ''N/A'' \<rparr>
   \<and> stats_annee arith_exact exemple_df 2021
       = Inr \<lparr> nb_projets = 2, montant_total = 1350000, delai_moyen = Num (Fin 1) \<rparr>
   \<and> length (leves 2021 exemple_df) = 2
   \<and> au_centieme 1 (arrondi2 arith_exact (Fin 1))
   \<and> au_centieme 1 (Fin 1)"
proof -
  let ?s = "\<lparr> nb_projets = 2, montant_total = 1350000, delai_moyen = Num (Fin 1) \<rparr>"
  let ?gaps = "map (\<lambda>r. fl_sub (annee_primo r) (annee_rcs r)) (leves 2021 exemple_df)"
  have e: "leves 2023 exemple_df = []"
    by (simp add: leves_def exemple_df_def montant_def gt0_def)
  from summary_statistics [where annee = 2023 and df = exemple_df and ar = arith_exact] e
  have a: "stats_annee arith_exact exemple_df 2023
       = Inr \<lparr> nb_projets = 0, montant_total = 0, delai_moyen = Text ''N/A'' \<rparr>" by blast
  note s = exemple_stats_2021
  have g: "?gaps = [Fin 1, NaN]"
    by (simp add: exemple_leves_2021) (simp add: exemple_df_def fl_sub_def)
  have m1: "mean_col arith_exact ?gaps = Fin 1"
    unfolding g
    by (simp add: mean_col_def arith_exact_def series_mean_def series_sum_def notnull_def)
  have m2: "series_mean ?gaps = Fin 1"
    unfolding g by (simp add: series_mean_def series_sum_def notnull_def)
  have r: "rint 100 = 100" by (simp add: rint_def Let_def)
  have ar1: "arrondi2 arith_exact (Fin 1) = Fin 1" by (simp add: arith_exact_def r)
  have c1: "au_centieme 1 (Fin 1)" by (simp add: au_centieme_def)
  then have c: "au_centieme 1 (arrondi2 arith_exact (Fin 1))" by (simp add: ar1)
  note inst = summary_statistics
    [where annee = 2021 and df = exemple_df and ar = arith_exact and s = ?s and mu = 1]
  from inst s have n: "nb_projets ?s = length (leves 2021 exemple_df)" by blast
  from inst s m1 m2 c have "\<exists>d. delai_moyen ?s = Num d \<and> au_centieme 1 d" by blast
  then have d: "au_centieme 1 (Fin 1)" by simp
  from n have len: "length (leves 2021 exemple_df) = 2" by simp
  show ?thesis using e a s len c d by blast
qed

section \<open>Selections without a row\<close>

lemma exemple_no_deeptech: "df_filtre exemple_df ColDeeptech Oui = []"
  by (simp add: df_filtre_def exemple_df_def)

text \<open>
  C5, as stated, fails: no project of the example table is labelled deep-tech, and the
  themed block for that label returns no table at all, so it is not a report whose tables
  hold zeros.
\<close>

theorem empty_selection_counterexample:
  "df_filtre exemple_df ColDeeptech Oui = []
   \<and> tableaux (analyse_par_filtre AnneeRCS exemple_df ColDeeptech Oui) = None
   \<and> \<not> spec_zero_row_report (analyse_par_filtre AnneeRCS exemple_df ColDeeptech Oui)"
  by (simp add: exemple_no_deeptech analyse_par_filtre_def spec_zero_row_report_def)

text \<open>
  C5, amended. For every themed choice that matches no row, the block does not fail: it
  reports 0 rows kept, shows the warning and builds no table. The origin block reports 0
  rows kept and builds no table. A block builds its tables exactly when its selection has
  a row, and the number it reports is the number of selected rows.
\<close>

theorem empty_selection:
  "(df_filtre df c ch = [] \<longrightarrow>
      analyse_par_filtre annee_ref df c ch
        = \<lparr> nb_retenus = 0, avertissement = True, tableaux = None \<rparr>)
   \<and> (df_exoendo df co = [] \<longrightarrow>
      analyse_exoendo annee_ref df co
        = \<lparr> nb_retenus = 0, avertissement = False, tableaux = None \<rparr>)
   \<and> (tableaux (analyse_par_filtre annee_ref df c ch) = None) = (df_filtre df c ch = [])
   \<and> (tableaux (analyse_exoendo annee_ref df co) = None) = (df_exoendo df co = [])
   \<and> nb_retenus (analyse_par_filtre annee_ref df c ch) = length (df_filtre df c ch)
   \<and> nb_retenus (analyse_exoendo annee_ref df co) = length (df_exoendo df co)"
  by (simp add: analyse_par_filtre_def analyse_exoendo_def Let_def)

theorem empty_selection_witness:
  "df_filtre exemple_df ColDeeptech Oui = []
   \<and> analyse_par_filtre AnneeRCS exemple_df ColDeeptech Oui
       = \<lparr> nb_retenus = 0, avertissement = True, tableaux = None \<rparr>"
  using empty_selection [of exemple_df ColDeeptech Oui AnneeRCS TousOrigine] exemple_no_deeptech
  by blast

section \<open>Composition of the filters\<close>

lemma boolean_index_map: "boolean_index xs (map P xs) = filter P xs"
  unfolding boolean_index_def by (induction xs) auto

lemma foldl_masque:
  "length m = length rs \<Longrightarrow>
   foldl (\<lambda>masque f. map2 (\<or>) masque (map (\<lambda>r. eq1 (r (filieres f))) rs)) m sel
     = map2 (\<or>) m (map (\<lambda>r. \<exists>f \<in> set sel. eq1 (r (filieres f))) rs)"
proof (induction sel arbitrary: m)
  case Nil
  then show ?case by (intro nth_equalityI) auto
next
  case (Cons f sel)
  let ?m' = "map2 (\<or>) m (map (\<lambda>r. eq1 (r (filieres f))) rs)"
  have len: "length ?m' = length rs" using Cons.prems by simp
  show ?case
    apply (simp add: Cons.IH [OF len])
    apply (rule nth_equalityI)
    using Cons.prems apply auto
    done
qed

lemma masque_filieres_map:
  "masque_filieres df sel = map (\<lambda>r. \<exists>f \<in> set sel. eq1 (r (filieres f))) (rows df)"
proof -
  have "masque_filieres df sel
        = map2 (\<or>) (replicate (length (rows df)) False)
            (map (\<lambda>r. \<exists>f \<in> set sel. eq1 (r (filieres f))) (rows df))"
    unfolding masque_filieres_def by (rule foldl_masque) simp
  also have "\<dots> = map (\<lambda>r. \<exists>f \<in> set sel. eq1 (r (filieres f))) (rows df)"
    by (rule nth_equalityI) auto
  finally show ?thesis .
qed

lemma appliquer_tous_filter:
  "appliquer_tous cs rs = filter (\<lambda>r. \<forall>c \<in> set cs. satisfait c r) rs"
  unfolding appliquer_tous_def
proof (induction cs arbitrary: rs)
  case Nil
  then show ?case by simp
next
  case (Cons c cs)
  have "foldl (\<lambda>acc c. appliquer c acc) (appliquer c rs) cs
        = filter (\<lambda>r. \<forall>c \<in> set cs. satisfait c r) (appliquer c rs)"
    by (rule Cons.IH)
  then show ?case by (simp add: appliquer_def conj_commute)
qed

lemma appliquer_tous_permute:
  "mset cs = mset cs' \<Longrightarrow> appliquer_tous cs rs = appliquer_tous cs' rs"
proof -
  assume "mset cs = mset cs'"
  then have "set cs = set cs'" by (rule mset_eq_setD)
  then show ?thesis by (simp add: appliquer_tous_filter)
qed

lemma select_eq1_Inr:
  "select_eq1 cols c rs = Inr out \<Longrightarrow> out = filter (\<lambda>r. eq1 (r c)) rs"
  by (simp add: select_eq1_def split: if_splits)


lemma satisfait_fun:
  "satisfait (Secteur cs) = (\<lambda>r. cs = [] \<or> (\<exists>c \<in> set cs. eq1 (r c)))"
  "satisfait (Drapeau c Tous) = (\<lambda>r. True)"
  "satisfait (Drapeau c Oui) = (\<lambda>r. eq1 (r c))"
  "satisfait (Drapeau c Non) = (\<lambda>r. eq0 (r c))"
  "satisfait (Origine TousOrigine) = (\<lambda>r. True)"
  "satisfait (Origine Exogene) = (\<lambda>r. eq1 (r ''EXOGENE''))"
  "satisfait (Origine Endogene) = (\<lambda>r. eq1 (r ''ENDOGENE''))"
  by (rule ext, simp)+

lemma secteur_step:
  assumes "(if sel \<noteq> []
            then (case filter (\<lambda>f. filieres f \<notin> set (columns df)) sel of
                    f # _ \<Rightarrow> Inl (KeyError (filieres f))
                  | [] \<Rightarrow> Inr (boolean_index (rows df) (masque_filieres df sel)))
            else Inr (rows df)) = Inr f1"
  shows "f1 = filter (satisfait (Secteur (map filieres sel))) (rows df)"
proof (cases "sel = []")
  case True
  then show ?thesis using assms by simp
next
  case False
  then have "f1 = boolean_index (rows df) (masque_filieres df sel)"
    using assms by (simp split: list.splits)
  then show ?thesis using False
    by (simp add: masque_filieres_map boolean_index_map satisfait_fun)
qed

lemma deeptech_step:
  "(if b then select_eq1 cols c f1 else Inr f1) = Inr f2 \<Longrightarrow>
   f2 = filter (satisfait (Drapeau c (if b then Oui else Tous))) f1"
  by (auto dest: select_eq1_Inr simp: satisfait_fun split: if_splits)

lemma origine_step:
  "(case o' of Endogene \<Rightarrow> select_eq1 cols ''ENDOGENE'' f3
             | Exogene \<Rightarrow> select_eq1 cols ''EXOGENE'' f3
             | TousOrigine \<Rightarrow> Inr f3) = Inr out \<Longrightarrow>
   out = filter (satisfait (Origine o')) f3"
  by (cases o') (auto dest: select_eq1_Inr simp: satisfait_fun)

lemma filtre_Inr:
  assumes "filtre sel df = Inr out"
  shows "out = filter (\<lambda>r. \<forall>c \<in> set (criteres sel). satisfait c r) (rows df)"
proof -
  from assms obtain f1 f2 f3 where
    s1: "(if selected_filiere sel \<noteq> []
            then (case filter (\<lambda>f. filieres f \<notin> set (columns df)) (selected_filiere sel) of
                    f # _ \<Rightarrow> Inl (KeyError (filieres f))
                  | [] \<Rightarrow> Inr (boolean_index (rows df)
                                 (masque_filieres df (selected_filiere sel))))
            else Inr (rows df)) = Inr f1"
    and s2: "(if deeptech_uniquement sel then select_eq1 (columns df) ''Deeptech'' f1
              else Inr f1) = Inr f2"
    and s3: "(if lien_uniquement sel then select_eq1 (columns df) col_lien f2
              else Inr f2) = Inr f3"
    and s4: "(case endo_exo sel of
                Endogene \<Rightarrow> select_eq1 (columns df) ''ENDOGENE'' f3
              | Exogene \<Rightarrow> select_eq1 (columns df) ''EXOGENE'' f3
              | TousOrigine \<Rightarrow> Inr f3) = Inr out"
    unfolding filtre_def by (blast dest!: bind_r_Inr)
  have "out = filter (satisfait (Origine (endo_exo sel)))
          (filter (satisfait (Drapeau col_lien (if lien_uniquement sel then Oui else Tous)))
            (filter (satisfait (Drapeau ''Deeptech'' (if deeptech_uniquement sel then Oui else Tous)))
              (filter (satisfait (Secteur (map filieres (selected_filiere sel)))) (rows df))))"
    using secteur_step [OF s1] deeptech_step [OF s2] deeptech_step [OF s3] origine_step [OF s4]
    by simp
  also have "\<dots> = filter (\<lambda>r. \<forall>c \<in> set (criteres sel). satisfait c r) (rows df)"
    unfolding criteres_def by (simp add: conj_ac cong: filter_cong)
  finally show ?thesis .
qed

lemma df_filtre_filter:
  "df_filtre df c ch
     = filter (\<lambda>r. case ch of Oui \<Rightarrow> flag c r = 1 | Non \<Rightarrow> flag c r = 0 | Tous \<Rightarrow> True) df"
  by (cases ch) (simp_all add: df_filtre_def)

lemma df_filtre_commute:
  "df_filtre (df_filtre df c1 ch1) c2 ch2 = df_filtre (df_filtre df c2 ch2) c1 ch1"
  unfolding df_filtre_filter by (simp add: conj_commute)


lemma filtre_total:
  assumes "filieres ` set (selected_filiere sel) \<subseteq> set (columns df)"
    and "''Deeptech'' \<in> set (columns df)" and "col_lien \<in> set (columns df)"
    and "''ENDOGENE'' \<in> set (columns df)" and "''EXOGENE'' \<in> set (columns df)"
  shows "\<exists>out. filtre sel df = Inr out"
proof -
  have "filter (\<lambda>f. filieres f \<notin> set (columns df)) (selected_filiere sel) = []"
    using assms(1) by (auto simp: filter_empty_conv)
  then show ?thesis
    using assms(2-5)
    by (cases "endo_exo sel") (simp_all add: filtre_def bind_r_def select_eq1_def)
qed

text \<open>
  C8. When the filter block of the second variant returns, its rows are the rows of the
  table that satisfy every criterion of the selection, and applying the criteria of the
  selection one after the other in any order gives the same rows. More generally, for the
  sector, tri-state flag and origin criteria: two lists of criteria that are permutations
  of each other select the same rows, two criteria commute, applying two lists in sequence
  is applying their concatenation, and sequential application is the filter by the
  conjunction of the criteria. The tri-state filters of the first variant commute as well.
  The filter block returns whenever the columns it reads exist.
\<close>

theorem filter_order_independent:
  assumes "filtre sel df = Inr out" and "mset cs = mset (criteres sel)"
  shows "appliquer_tous cs (rows df) = out
    \<and> out = filter (\<lambda>r. \<forall>c \<in> set (criteres sel). satisfait c r) (rows df)
    \<and> (mset cs1 = mset cs2 \<longrightarrow> appliquer_tous cs1 rs = appliquer_tous cs2 rs)
    \<and> appliquer c1 (appliquer c2 rs) = appliquer c2 (appliquer c1 rs)
    \<and> appliquer_tous (cs1 @ cs2) rs = appliquer_tous cs2 (appliquer_tous cs1 rs)
    \<and> appliquer_tous cs1 rs = filter (\<lambda>r. \<forall>c \<in> set cs1. satisfait c r) rs
    \<and> df_filtre (df_filtre pdf k1 ch1) k2 ch2 = df_filtre (df_filtre pdf k2 ch2) k1 ch1
    \<and> (filieres ` set (selected_filiere sel') \<union> {''Deeptech'', col_lien, ''ENDOGENE'', ''EXOGENE''}
          \<subseteq> set (columns df') \<longrightarrow> (\<exists>out'. filtre sel' df' = Inr out'))"
proof -
  have o: "out = filter (\<lambda>r. \<forall>c \<in> set (criteres sel). satisfait c r) (rows df)"
    using assms(1) by (rule filtre_Inr)
  have "appliquer_tous cs (rows df) = appliquer_tous (criteres sel) (rows df)"
    using assms(2) by (rule appliquer_tous_permute)
  then have a: "appliquer_tous cs (rows df) = out"
    by (simp only: o appliquer_tous_filter)
  have p: "mset cs1 = mset cs2 \<longrightarrow> appliquer_tous cs1 rs = appliquer_tous cs2 rs"
    using appliquer_tous_permute by blast
  have c: "appliquer c1 (appliquer c2 rs) = appliquer c2 (appliquer c1 rs)"
    by (simp add: appliquer_def conj_commute)
  have app: "appliquer_tous (cs1 @ cs2) rs = appliquer_tous cs2 (appliquer_tous cs1 rs)"
    by (simp add: appliquer_tous_def)
  have f: "appliquer_tous cs1 rs = filter (\<lambda>r. \<forall>c \<in> set cs1. satisfait c r) rs"
    by (rule appliquer_tous_filter)
  have d: "df_filtre (df_filtre pdf k1 ch1) k2 ch2 = df_filtre (df_filtre pdf k2 ch2) k1 ch1"
    by (rule df_filtre_commute)
  have t: "\<exists>out'. filtre sel' df' = Inr out'"
    if "filieres ` set (selected_filiere sel') \<union> {''Deeptech'', col_lien, ''ENDOGENE'', ''EXOGENE''}
          \<subseteq> set (columns df')"
    using that by (intro filtre_total) auto
  show ?thesis using a o p c app f d t by blast
qed

theorem filter_order_independent_witness:
  "filtre \<lparr> selected_filiere = [F_Numerique, F_Sante], deeptech_uniquement = False,
            lien_uniquement = False, endo_exo = TousOrigine \<rparr> exemple_raw
     = Inr [exemple_rows ! 0, exemple_rows ! 1]
   \<and> appliquer_tous
        (rev (criteres \<lparr> selected_filiere = [F_Numerique, F_Sante], deeptech_uniquement = False,
                        lien_uniquement = False, endo_exo = TousOrigine \<rparr>))
        (rows exemple_raw)
     = [exemple_rows ! 0, exemple_rows ! 1]"
proof -
  let ?sel = "\<lparr> selected_filiere = [F_Numerique, F_Sante], deeptech_uniquement = False,
            lien_uniquement = False, endo_exo = TousOrigine \<rparr>"
  have m: "masque_filieres exemple_raw [F_Numerique, F_Sante] = [True, True, False]"
    by (simp add: masque_filieres_def exemple_raw_def exemple_rows_def eq1_def col_defs)
  have r: "rows exemple_raw = [exemple_rows ! 0, exemple_rows ! 1, exemple_rows ! 2]"
    by (simp add: exemple_raw_def exemple_rows_def)
  have cols: "columns exemple_raw = required_columns" by (simp add: exemple_raw_def)
  have c: "col_numerique \<in> set (columns exemple_raw)" "col_sante \<in> set (columns exemple_raw)"
    unfolding cols required_columns_def by simp_all
  have run: "filtre ?sel exemple_raw = Inr [exemple_rows ! 0, exemple_rows ! 1]"
    by (simp add: filtre_def bind_r_def c m r boolean_index_def)
  have perm: "mset (rev (criteres ?sel)) = mset (criteres ?sel)" by simp
  from filter_order_independent [OF run perm]
  have "appliquer_tous (rev (criteres ?sel)) (rows exemple_raw)
          = [exemple_rows ! 0, exemple_rows ! 1]" by blast
  then show ?thesis using run by blast
qed

section \<open>The two variants\<close>

lemma exemple_levees:
  "levees exemple_parse exemple_raw
     = Inr [(2021, Fin 600000), (2021, Fin 0), (2022, Fin 1200000), (2021, Fin 750000)]"
proof -
  have cols: "columns exemple_raw = required_columns" by (simp add: exemple_raw_def)
  have c: "filter (\<lambda>c. c \<notin> set (columns exemple_raw)) year_cols = []"
    unfolding cols required_columns_def year_cols_def by simp
  have r: "rows exemple_raw = exemple_rows" by (simp add: exemple_raw_def)
  show ?thesis
    unfolding levees_def c r
    by (simp add: exemple_rows_def year_cols_def to_numeric_def exemple_parse_def notnull_def
        col_defs)
qed

lemma exemple_synthese:
  "synthese arith_exact exemple_parse exemple_raw
     = Inr [(2021, \<lparr> nb_levees = 3, montant_total_annee = Fin 1350000,
                      montant_moyen = Fin 450000 \<rparr>),
            (2022, \<lparr> nb_levees = 1, montant_total_annee = Fin 1200000,
                      montant_moyen = Fin 1200000 \<rparr>)]"
  unfolding synthese_def exemple_levees
  by (simp add: bind_r_def groupby_annee_def arith_exact_def series_sum_def series_mean_def
      notnull_def)


text \<open>
  C10. There is a table and a year for which the number of funding events of the first
  variant (amount greater than 0 after zero-filling) differs from the number of the second
  variant (amount not null, no zero-filling): on the example table, whose second row has an
  explicit 0 for 2021, the first variant counts 2 events in 2021 and the second counts 3.
  The sums of the example are sums of small integers, exact on the platform.
\<close>

theorem variants_differ:
  "\<exists>parse raw annee df s sy l.
     pretraitements parse raw = Inr df \<and> stats_annee arith_exact df annee = Inr s
     \<and> synthese arith_exact parse raw = Inr sy \<and> map_of sy annee = Some l
     \<and> nb_projets s = 2 \<and> nb_levees l = 3 \<and> nb_projets s \<noteq> nb_levees l"
proof -
  let ?s = "\<lparr> nb_projets = 2, montant_total = 1350000, delai_moyen = Num (Fin 1) \<rparr>"
  let ?l = "\<lparr> nb_levees = 3, montant_total_annee = Fin 1350000, montant_moyen = Fin 450000 \<rparr>"
  let ?sy = "[(2021 :: int, ?l),
              (2022, \<lparr> nb_levees = 1, montant_total_annee = Fin 1200000,
                       montant_moyen = Fin 1200000 \<rparr>)]"
  have "pretraitements exemple_parse exemple_raw = Inr exemple_df"
    by (rule exemple_pretraitements)
  moreover have "stats_annee arith_exact exemple_df 2021 = Inr ?s" by (rule exemple_stats_2021)
  moreover have "synthese arith_exact exemple_parse exemple_raw = Inr ?sy"
    by (rule exemple_synthese)
  moreover have "map_of ?sy 2021 = Some ?l" by simp
  moreover have "nb_projets ?s = 2" "nb_levees ?l = 3" "nb_projets ?s \<noteq> nb_levees ?l"
    by simp_all
  ultimately show ?thesis by blast
qed

end
